theory Spec2Isabelle
  imports Complex_Main "HOL-Library.Multiset"
begin

section \<open>JavaScript values used by the pages\<close>

subsection \<open>Dates\<close>

text \<open>
  A \<^verbatim>\<open>Date\<close> object is modelled by its time value: the milliseconds since the epoch
  that \<^verbatim>\<open>getTime()\<close> reports, or \<open>None\<close> for an Invalid Date (time value NaN), which
  is what \<^verbatim>\<open>new Date(s)\<close> yields for an unparseable string. The current instant
  \<^verbatim>\<open>new Date()\<close> is always valid and is passed to every function as an integer
  \<open>now\<close>. Time values are exact integers; the pages divide them as IEEE doubles, the
  model as rationals.
\<close>

type_synonym jsdate = "int option"

text \<open>\<^verbatim>\<open>a >= b\<close> and \<^verbatim>\<open>a <= b\<close> on two Dates compare the time values; a comparison
  with NaN is false.\<close>

definition date_ge :: "jsdate \<Rightarrow> jsdate \<Rightarrow> bool" where
  "date_ge a b = (case a of None \<Rightarrow> False
                  | Some x \<Rightarrow> (case b of None \<Rightarrow> False | Some y \<Rightarrow> y \<le> x))"

definition date_le :: "jsdate \<Rightarrow> jsdate \<Rightarrow> bool" where
  "date_le a b = (case a of None \<Rightarrow> False
                  | Some x \<Rightarrow> (case b of None \<Rightarrow> False | Some y \<Rightarrow> x \<le> y))"

text \<open>\<^verbatim>\<open>1000 * 60 * 60 * 24\<close>, the divisor of both duration computations.\<close>

definition msPerDay :: int where
  "msPerDay = 1000 * 60 * 60 * 24"

text \<open>Day number (days since 1970-01-01) of a Gregorian calendar date, month 1 to 12.\<close>

definition daysFromCivil :: "int \<Rightarrow> int \<Rightarrow> int \<Rightarrow> int" where
  "daysFromCivil y m d =
     (let y' = (if m \<le> 2 then y - 1 else y);
          era = y' div 400;
          yoe = y' - era * 400;
          mp = (m + 9) mod 12;
          doy = (153 * mp + 2) div 5 + d - 1;
          doe = yoe * 365 + yoe div 4 - yoe div 100 + doy
      in era * 146097 + doe - 719468)"

text \<open>
  \<^verbatim>\<open>MakeDay(year, month, date)\<close> of ECMAScript: the month is an index from 0, a month
  index outside 0..11 carries into the year, and the day of the month is added
  linearly (day 0 is the last day of the month before).
\<close>

definition makeDay :: "int \<Rightarrow> int \<Rightarrow> int \<Rightarrow> int" where
  "makeDay y m d = daysFromCivil (y + m div 12) (m mod 12 + 1) 1 + d - 1"

text \<open>
  \<^verbatim>\<open>new Date(year, monthIndex, day)\<close>: midnight of that day in local time. The local
  zone is a parameter \<open>tz\<close>: for the day number of a local calendar day, the minutes
  that \<^verbatim>\<open>getTimezoneOffset()\<close> reports at its midnight (UTC minus local time, so
  \<open>- 60\<close> is UTC+1). A zone with daylight saving gives different days different
  offsets; \<open>\<lambda>day. c\<close> is a zone of constant offset. Years 0 to 99 mean 1900 to 1999.
\<close>

definition localDate :: "(int \<Rightarrow> int) \<Rightarrow> int \<Rightarrow> int \<Rightarrow> int \<Rightarrow> jsdate" where
  "localDate tz y m d =
     (let day = makeDay (if 0 \<le> y \<and> y \<le> 99 then 1900 + y else y) m d
      in Some (day * msPerDay + tz day * 60000))"

text \<open>
  \<^verbatim>\<open>new Date("YYYY-MM-DD")\<close> and \<^verbatim>\<open>new Date("YYYY-MM-DDT00:00:00.000Z")\<close>, the form in
  which the API delivers dates (the edit form cuts it at the \<^verbatim>\<open>T\<close>): midnight UTC of
  that day, month 1 to 12.
\<close>

definition isoDate :: "int \<Rightarrow> int \<Rightarrow> int \<Rightarrow> jsdate" where
  "isoDate y m d = Some (daysFromCivil y m d * msPerDay)"

subsection \<open>Numbers that a division can produce\<close>

datatype jsnum = Num rat | PosInf | NegInf | NaN

text \<open>\<^verbatim>\<open>a / b\<close> on two finite numbers, the divisor a positive zero when it is zero.\<close>

definition js_div :: "rat \<Rightarrow> rat \<Rightarrow> jsnum" where
  "js_div a b =
     (if b \<noteq> 0 then Num (a / b)
      else if 0 < a then PosInf
      else if a < 0 then NegInf
      else NaN)"

text \<open>\<^verbatim>\<open>x * c\<close> for a finite \<open>c\<close>.\<close>

fun js_times :: "jsnum \<Rightarrow> rat \<Rightarrow> jsnum" where
  "js_times (Num a) c = Num (a * c)"
| "js_times PosInf c = (if 0 < c then PosInf else if c < 0 then NegInf else NaN)"
| "js_times NegInf c = (if 0 < c then NegInf else if c < 0 then PosInf else NaN)"
| "js_times NaN c = NaN"

text \<open>\<^verbatim>\<open>Math.max\<close> and \<^verbatim>\<open>Math.min\<close> of two arguments: NaN if either is NaN.\<close>

fun Math_max :: "jsnum \<Rightarrow> jsnum \<Rightarrow> jsnum" where
  "Math_max NaN y = NaN"
| "Math_max x NaN = NaN"
| "Math_max PosInf y = PosInf"
| "Math_max x PosInf = PosInf"
| "Math_max NegInf y = y"
| "Math_max x NegInf = x"
| "Math_max (Num a) (Num b) = Num (max a b)"

fun Math_min :: "jsnum \<Rightarrow> jsnum \<Rightarrow> jsnum" where
  "Math_min NaN y = NaN"
| "Math_min x NaN = NaN"
| "Math_min NegInf y = NegInf"
| "Math_min x NegInf = NegInf"
| "Math_min PosInf y = y"
| "Math_min x PosInf = x"
| "Math_min (Num a) (Num b) = Num (min a b)"

section \<open>Projects page: duration and progress\<close>

text \<open>
  \<^verbatim>\<open>getDuration\<close>: \<^verbatim>\<open>Math.ceil((end.getTime() - start.getTime()) / (1000*60*60*24))\<close>.
  The assignment card computes the same expression inline. \<open>None\<close> is NaN, the result
  for an Invalid Date.
\<close>

definition getDuration :: "jsdate \<Rightarrow> jsdate \<Rightarrow> int option" where
  "getDuration startDate endDate =
     (case startDate of None \<Rightarrow> None
      | Some s \<Rightarrow> (case endDate of None \<Rightarrow> None
          | Some e \<Rightarrow> Some \<lceil>(of_int (e - s) :: rat) / of_int msPerDay\<rceil>))"

text \<open>
  \<^verbatim>\<open>getProgress\<close>: \<^verbatim>\<open>Math.min(Math.max((elapsed / total) * 100, 0), 100)\<close> with
  \<^verbatim>\<open>total = end - start\<close> and \<^verbatim>\<open>elapsed = now - start\<close>.
\<close>

definition getProgress :: "int \<Rightarrow> jsdate \<Rightarrow> jsdate \<Rightarrow> jsnum" where
  "getProgress now startDate endDate =
     (case startDate of None \<Rightarrow> NaN
      | Some s \<Rightarrow> (case endDate of None \<Rightarrow> NaN
          | Some e \<Rightarrow>
              (let total = e - s; elapsed = now - s
               in Math_min (Math_max (js_times (js_div (of_int elapsed) (of_int total)) 100)
                                     (Num 0))
                           (Num 100))))"

section \<open>Data model\<close>

text \<open>
  The pages declare their own interfaces over the same JSON. An assignment's
  \<^verbatim>\<open>engineerId\<close> and \<^verbatim>\<open>projectId\<close> are typed \<^verbatim>\<open>string | { _id; name }\<close> on the dashboard
  and the timeline (\<open>IdOrRef\<close>) and \<^verbatim>\<open>{ _id; name; ... }\<close> on the analytics page and the
  engineer dashboard (\<open>PopulatedRef\<close>); the record takes the type as a parameter.
  A number that may be missing is an \<open>option\<close>; percentages are integers.
\<close>

record PopulatedRef =
  ref_id :: string
  ref_name :: string

datatype IdOrRef = IdString string | Expanded PopulatedRef

record 'r Assignment =
  assignment_id :: string
  engineerId :: 'r
  projectId :: 'r
  allocationPercentage :: "int option"
  startDate :: jsdate
  endDate :: jsdate
  role :: string

record User =
  user_id :: string
  user_name :: string
  skills :: "string list option"
  seniority :: "string option"
  maxCapacity :: "int option"

text \<open>\<^verbatim>\<open>{ ...engineer, currentCapacity, availableCapacity, assignments }\<close>; the analytics
  page attaches no \<^verbatim>\<open>assignments\<close>.\<close>

record 'r EngineerWithCapacity = User +
  currentCapacity :: int
  availableCapacity :: int
  assignments :: "'r Assignment list option"

record Project =
  project_id :: string
  project_name :: string
  status :: string
  teamSize :: int
  requiredSkills :: "string list option"

subsection \<open>Defaults\<close>

text \<open>\<^verbatim>\<open>x || 0\<close>, \<^verbatim>\<open>x || 100\<close> (the default also replaces a 0) and \<^verbatim>\<open>x ?? 100\<close> (the default
  replaces only a missing value).\<close>

definition orZero :: "int option \<Rightarrow> int" where
  "orZero x = (case x of None \<Rightarrow> 0 | Some v \<Rightarrow> if v = 0 then 0 else v)"

definition orHundred :: "int option \<Rightarrow> int" where
  "orHundred x = (case x of None \<Rightarrow> 100 | Some v \<Rightarrow> if v = 0 then 100 else v)"

definition nullishHundred :: "int option \<Rightarrow> int" where
  "nullishHundred x = (case x of None \<Rightarrow> 100 | Some v \<Rightarrow> v)"

section \<open>Capacity of each engineer\<close>

text \<open>Dashboard.tsx: \<^verbatim>\<open>getEngineerId\<close> and the \<^verbatim>\<open>engineersWithCapacity\<close> map.\<close>

definition getEngineerId :: "IdOrRef Assignment \<Rightarrow> string" where
  "getEngineerId assignment =
     (case engineerId assignment of IdString s \<Rightarrow> s | Expanded r \<Rightarrow> ref_id r)"

definition dashboardEngineersWithCapacity ::
  "int \<Rightarrow> User list \<Rightarrow> IdOrRef Assignment list \<Rightarrow> IdOrRef EngineerWithCapacity list" where
  "dashboardEngineersWithCapacity now engs assigns =
     map (\<lambda>engineer.
        let engineerAssignments =
              filter (\<lambda>a. getEngineerId a = user_id engineer \<and> date_ge (endDate a) (Some now))
                assigns;
            current = foldl (\<lambda>sum a. sum + orZero (allocationPercentage a)) 0
                        engineerAssignments;
            maxCap = orHundred (maxCapacity engineer);
            available = max 0 (maxCap - current)
        in User.extend engineer
             (EngineerWithCapacity.fields current available (Some engineerAssignments)))
       engs"

text \<open>Analytics.tsx: the same map, reading \<^verbatim>\<open>a.engineerId._id\<close> and defaulting with
  \<^verbatim>\<open>??\<close>; it also normalises \<^verbatim>\<open>maxCapacity\<close>, \<^verbatim>\<open>skills\<close> and \<^verbatim>\<open>seniority\<close>.\<close>

definition analyticsEngineersWithCapacity ::
  "int \<Rightarrow> User list \<Rightarrow> PopulatedRef Assignment list
     \<Rightarrow> PopulatedRef EngineerWithCapacity list" where
  "analyticsEngineersWithCapacity now engs assigns =
     map (\<lambda>engineer.
        let engineerAssignments =
              filter (\<lambda>a. ref_id (engineerId a) = user_id engineer
                           \<and> date_ge (endDate a) (Some now))
                assigns;
            current = foldl (\<lambda>sum a. sum + orZero (allocationPercentage a)) 0
                        engineerAssignments;
            maxCap = nullishHundred (maxCapacity engineer);
            available = max 0 (maxCap - current)
        in User.extend
             (engineer\<lparr>maxCapacity := Some maxCap,
                        skills := Some (case skills engineer of None \<Rightarrow> [] | Some s \<Rightarrow> s),
                        seniority := Some (case seniority engineer of None \<Rightarrow> [] | Some s \<Rightarrow> s)\<rparr>)
             (EngineerWithCapacity.fields current available None))
       engs"

section \<open>Team analytics\<close>

text \<open>Analytics.tsx, \<^verbatim>\<open>averageUtilization\<close>: guarded by \<^verbatim>\<open>engineers.length > 0\<close>.\<close>

definition averageUtilization :: "'r EngineerWithCapacity list \<Rightarrow> jsnum" where
  "averageUtilization engineers =
     (if length engineers > 0
      then js_div (of_int (foldl (\<lambda>sum e. sum + currentCapacity e) 0 engineers))
                  (of_nat (length engineers))
      else Num 0)"

text \<open>\<^verbatim>\<open>engineers.filter((e) => e.currentCapacity > (e.maxCapacity || 100) * 0.9).length\<close>
  and \<^verbatim>\<open>engineers.filter((e) => e.availableCapacity > 20).length\<close>, written alike on the
  analytics page and in the dashboard cards.\<close>

definition overloadedEngineers :: "'r EngineerWithCapacity list \<Rightarrow> nat" where
  "overloadedEngineers engineers =
     length (filter (\<lambda>e. (of_int (orHundred (maxCapacity e)) :: rat) * (9 / 10)
                            < of_int (currentCapacity e)) engineers)"

definition underutilizedEngineers :: "'r EngineerWithCapacity list \<Rightarrow> nat" where
  "underutilizedEngineers engineers =
     length (filter (\<lambda>e. 20 < availableCapacity e) engineers)"

subsection \<open>Objects used as dictionaries\<close>

text \<open>
  A \<^verbatim>\<open>Record<string, number>\<close> built from \<^verbatim>\<open>{}\<close> is the list of its own properties in
  creation order. Assigning to an existing key keeps its place. \<^verbatim>\<open>Object.entries\<close>
  lists the keys that are array indices first (canonical decimal numerals below
  \<open>2^32 - 1\<close>), in ascending numeric order, and then the other keys in creation
  order.

  The object inherits from \<^verbatim>\<open>Object.prototype\<close>. Reading a key that is not an own
  property but names a member of the prototype yields that member: a function, or
  for \<^verbatim>\<open>__proto__\<close> the prototype itself; both are truthy and neither is a number.
  Assigning to \<^verbatim>\<open>__proto__\<close> a value that is not an object runs the inherited setter,
  which ignores it, so no own property appears; assigning to any other key creates
  or updates the own property.
\<close>

type_synonym 'v jsobject = "(string \<times> 'v) list"

fun obj_set :: "'v jsobject \<Rightarrow> string \<Rightarrow> 'v \<Rightarrow> 'v jsobject" where
  "obj_set [] k v = [(k, v)]"
| "obj_set ((k', v') # kvs) k v =
     (if k' = k then (k', v) # kvs else (k', v') # obj_set kvs k v)"

definition inheritedNames :: "string list" where
  "inheritedNames =
     [''constructor'', ''__defineGetter__'', ''__defineSetter__'', ''hasOwnProperty'',
      ''__lookupGetter__'', ''__lookupSetter__'', ''isPrototypeOf'',
      ''propertyIsEnumerable'', ''toString'', ''valueOf'', ''__proto__'',
      ''toLocaleString'']"

definition obj_assign :: "'v jsobject \<Rightarrow> string \<Rightarrow> 'v \<Rightarrow> 'v jsobject" where
  "obj_assign obj k v = (if k = ''__proto__'' then obj else obj_set obj k v)"

datatype 'v jsread = Undefined | Own 'v | Inherited

definition obj_get :: "'v jsobject \<Rightarrow> string \<Rightarrow> 'v jsread" where
  "obj_get obj k =
     (case map_of obj k of Some v \<Rightarrow> Own v
      | None \<Rightarrow> if k \<in> set inheritedNames then Inherited else Undefined)"

definition isDigit :: "char \<Rightarrow> bool" where
  "isDigit c = (c \<in> set ''0123456789'')"

definition digitsValue :: "string \<Rightarrow> int" where
  "digitsValue s = foldl (\<lambda>n c. 10 * n + (of_char c - 48)) 0 s"

definition isArrayIndex :: "string \<Rightarrow> bool" where
  "isArrayIndex s =
     (case s of [] \<Rightarrow> False
      | c # cs \<Rightarrow> list_all isDigit s \<and> (c \<noteq> CHR ''0'' \<or> cs = [])
                  \<and> digitsValue s < 4294967295)"

definition Object_entries :: "'v jsobject \<Rightarrow> (string \<times> 'v) list" where
  "Object_entries obj =
     sort_key (\<lambda>kv. digitsValue (fst kv)) (filter (\<lambda>kv. isArrayIndex (fst kv)) obj)
     @ filter (\<lambda>kv. \<not> isArrayIndex (fst kv)) obj"

subsection \<open>Skill demand\<close>

text \<open>
  The values \<^verbatim>\<open>skillDemand\<close> can hold: a number, or a string. \<^verbatim>\<open>(x || 0) + 1\<close> is 1
  for a missing value and a number plus 1 for a number; for an inherited member or
  a string it is a string concatenation, whose text (engine-dependent) is not
  modelled.
\<close>

datatype jsval = JNumber int | JText

definition orZeroPlusOne :: "jsval jsread \<Rightarrow> jsval" where
  "orZeroPlusOne r =
     (case r of Undefined \<Rightarrow> JNumber (0 + 1)
      | Own (JNumber c) \<Rightarrow> JNumber ((if c = 0 then 0 else c) + 1)
      | Own JText \<Rightarrow> JText
      | Inherited \<Rightarrow> JText)"

text \<open>\<^verbatim>\<open>acc[skill] = (acc[skill] || 0) + 1\<close> for every entry of every project's
  \<^verbatim>\<open>requiredSkills\<close> (skipped when the list is missing).\<close>

definition countSkill :: "jsval jsobject \<Rightarrow> string \<Rightarrow> jsval jsobject" where
  "countSkill acc skill = obj_assign acc skill (orZeroPlusOne (obj_get acc skill))"

definition skillDemand :: "Project list \<Rightarrow> jsval jsobject" where
  "skillDemand projects =
     foldl (\<lambda>acc project.
              case requiredSkills project of None \<Rightarrow> acc
              | Some sk \<Rightarrow> foldl countSkill acc sk)
       [] projects"

text \<open>
  \<^verbatim>\<open>Object.entries(skillDemand).sort(([, a], [, b]) => b - a)\<close>: on numbers the sort is
  stable and ascending in the negated count. Where a value is a string, \<^verbatim>\<open>b - a\<close> is
  NaN, which the sort reads as "equal". If then the numbers among the values are
  all the same, every comparison says "equal" and the stable sort leaves the array
  as it is; if two of them differ, the comparator is inconsistent, the order is
  left to the engine, and the model gives \<open>None\<close>. \<^verbatim>\<open>topSkills\<close> is the
  \<^verbatim>\<open>.slice(0, 5)\<close> of the sorted array.
\<close>

definition isNumber :: "jsval \<Rightarrow> bool" where
  "isNumber v = (case v of JNumber c \<Rightarrow> True | JText \<Rightarrow> False)"

definition numberOf :: "jsval \<Rightarrow> int" where
  "numberOf v = (case v of JNumber c \<Rightarrow> c | JText \<Rightarrow> 0)"

definition sortedSkillDemand :: "Project list \<Rightarrow> (string \<times> jsval) list option" where
  "sortedSkillDemand projects =
     (let entries = Object_entries (skillDemand projects)
      in if list_all (\<lambda>kv. isNumber (snd kv)) entries
         then Some (sort_key (\<lambda>kv. - numberOf (snd kv)) entries)
         else if length (remdups (map (\<lambda>kv. numberOf (snd kv))
                                    (filter (\<lambda>kv. isNumber (snd kv)) entries))) \<le> 1
         then Some entries
         else None)"

definition topSkills :: "Project list \<Rightarrow> (string \<times> jsval) list option" where
  "topSkills projects = map_option (take 5) (sortedSkillDemand projects)"

subsection \<open>Skill gap\<close>

text \<open>A \<^verbatim>\<open>Set<string>\<close> is the list of its members in insertion order.\<close>

definition set_add :: "string list \<Rightarrow> string \<Rightarrow> string list" where
  "set_add s x = (if x \<in> set s then s else s @ [x])"

record SkillGap =
  missingSkills :: "string list"
  insufficientSkills :: "string list"
  totalRequired :: nat
  totalAvailable :: nat
  coverage :: jsnum

definition skillGapAnalysis :: "Project list \<Rightarrow> 'r EngineerWithCapacity list \<Rightarrow> SkillGap" where
  "skillGapAnalysis projects engineers =
     (let required =
            foldl (\<lambda>s project. case requiredSkills project of None \<Rightarrow> s
                                | Some sk \<Rightarrow> foldl set_add s sk) [] projects;
          available =
            foldl (\<lambda>s engineer. case skills engineer of None \<Rightarrow> s
                                 | Some sk \<Rightarrow> foldl set_add s sk) [] engineers;
          missing = filter (\<lambda>skill. skill \<notin> set available) required;
          skillCoverage =
            foldl (\<lambda>obj skill.
                     obj_assign obj skill
                       (length (filter (\<lambda>engineer. case skills engineer of None \<Rightarrow> False
                                                     | Some sk \<Rightarrow> skill \<in> set sk)
                                  engineers)))
              [] required;
          insufficient =
            map fst (filter (\<lambda>kv. snd kv < 2) (Object_entries skillCoverage))
      in \<lparr> missingSkills = missing,
           insufficientSkills = insufficient,
           totalRequired = length required,
           totalAvailable = length available,
           coverage = js_times (js_div (of_nat (length available))
                                       (of_nat (length required))) 100 \<rparr>)"

section \<open>Timeline page\<close>

text \<open>The project and engineer filters: \<^verbatim>\<open>'all'\<close> lets everything through, otherwise
  the reference, bare or expanded, must carry the selected id.\<close>

definition refMatches :: "IdOrRef \<Rightarrow> string \<Rightarrow> bool" where
  "refMatches r selected =
     (case r of IdString s \<Rightarrow> s = selected | Expanded p \<Rightarrow> ref_id p = selected)"

definition filteredAssignments ::
  "string \<Rightarrow> string \<Rightarrow> IdOrRef Assignment list \<Rightarrow> IdOrRef Assignment list" where
  "filteredAssignments selectedProject selectedEngineer assigns =
     filter (\<lambda>assignment.
        (selectedProject = ''all'' \<or> refMatches (projectId assignment) selectedProject)
        \<and> (selectedEngineer = ''all'' \<or> refMatches (engineerId assignment) selectedEngineer))
       assigns"

text \<open>\<^verbatim>\<open>getAssignmentsForDate\<close>: \<^verbatim>\<open>date >= start && date <= end\<close> over the filtered list.\<close>

definition getAssignmentsForDate :: "'r Assignment list \<Rightarrow> jsdate \<Rightarrow> 'r Assignment list" where
  "getAssignmentsForDate filtered date =
     filter (\<lambda>assignment. date_ge date (startDate assignment)
                           \<and> date_le date (endDate assignment))
       filtered"

text \<open>The day number of the local midnight that \<^verbatim>\<open>new Date(year, monthIndex, day)\<close>
  denotes, and \<^verbatim>\<open>getDate()\<close>, the day of the month of a day number.\<close>

definition dateDay :: "int \<Rightarrow> int \<Rightarrow> int \<Rightarrow> int" where
  "dateDay y m d = makeDay (if 0 \<le> y \<and> y \<le> 99 then 1900 + y else y) m d"

definition dayOfMonth :: "int \<Rightarrow> int" where
  "dayOfMonth z =
     (let z' = z + 719468;
          era = z' div 146097;
          doe = z' - era * 146097;
          yoe = (doe - doe div 1460 + doe div 36524 - doe div 146096) div 365;
          doy = doe - (365 * yoe + yoe div 4 - yoe div 100);
          mp = (5 * doy + 2) div 153
      in doy - (153 * mp + 2) div 5 + 1)"

text \<open>\<^verbatim>\<open>getDaysInMonth\<close>: \<^verbatim>\<open>new Date(year, month + 1, 0).getDate()\<close>, on the year and month
  index of \<^verbatim>\<open>currentMonth\<close>.\<close>

definition getDaysInMonth :: "int \<Rightarrow> int \<Rightarrow> nat" where
  "getDaysInMonth y m = nat (dayOfMonth (dateDay y (m + 1) 0))"

text \<open>The calendar grid: cell \<open>i\<close> (from 0) shows
  \<^verbatim>\<open>getAssignmentsForDate(new Date(year, month, i + 1))\<close>. The cell renders the first
  three and a count of the rest; this is the whole bucket.\<close>

definition calendarDays ::
  "(int \<Rightarrow> int) \<Rightarrow> int \<Rightarrow> int \<Rightarrow> 'r Assignment list \<Rightarrow> 'r Assignment list list" where
  "calendarDays tz y m filtered =
     map (\<lambda>i. getAssignmentsForDate filtered (localDate tz y m (int i + 1)))
       [0 ..< getDaysInMonth y m]"

text \<open>
  Upcoming assignments: \<^verbatim>\<open>.filter(a => new Date(a.startDate) >= new Date())\<close>, then
  \<^verbatim>\<open>.sort\<close> by the difference of the start times (stable), then \<^verbatim>\<open>.slice(0, 10)\<close>.
  The filter lets no Invalid Date through, so the comparator only sees time values;
  \<open>startTime\<close> gives an invalid date the key 0, which is never used.
\<close>

definition startTime :: "'r Assignment \<Rightarrow> int" where
  "startTime a = (case startDate a of None \<Rightarrow> 0 | Some t \<Rightarrow> t)"

definition upcomingAssignments :: "int \<Rightarrow> 'r Assignment list \<Rightarrow> 'r Assignment list" where
  "upcomingAssignments now filtered =
     take 10 (sort_key startTime
                (filter (\<lambda>a. date_ge (startDate a) (Some now)) filtered))"

section \<open>Engineer dashboard: utilization of the next three months\<close>

text \<open>\<^verbatim>\<open>sum + a.allocationPercentage\<close> with no default: a missing percentage makes the
  sum NaN (\<open>None\<close>), and \<^verbatim>\<open>Math.min(NaN, 100)\<close> is NaN.\<close>

definition js_add :: "int option \<Rightarrow> int option \<Rightarrow> int option" where
  "js_add x y = (case x of None \<Rightarrow> None
                 | Some a \<Rightarrow> (case y of None \<Rightarrow> None | Some b \<Rightarrow> Some (a + b)))"

definition min100 :: "int option \<Rightarrow> int option" where
  "min100 x = (case x of None \<Rightarrow> None | Some a \<Rightarrow> Some (min a 100))"

text \<open>\<^verbatim>\<open>getMonthlyData\<close>, the \<^verbatim>\<open>utilization\<close> array (the labels are formatting). The clock
  enters through \<^verbatim>\<open>now.getFullYear()\<close> and \<^verbatim>\<open>now.getMonth()\<close>.\<close>

definition monthUtilization :: "jsdate \<Rightarrow> 'r Assignment list \<Rightarrow> int option" where
  "monthUtilization month assigns =
     (let monthAssignments =
            filter (\<lambda>a. date_le (startDate a) month \<and> date_ge (endDate a) month) assigns
      in min100 (foldl (\<lambda>sum a. js_add sum (allocationPercentage a)) (Some 0)
                   monthAssignments))"

definition getMonthlyData ::
  "(int \<Rightarrow> int) \<Rightarrow> int \<Rightarrow> int \<Rightarrow> 'r Assignment list \<Rightarrow> int option list" where
  "getMonthlyData tz nowYear nowMonth assigns =
     map (\<lambda>i. monthUtilization (localDate tz nowYear (nowMonth + i) 1) assigns) [0, 1, 2]"

section \<open>Suitable engineers\<close>

text \<open>
  Modelled from the spec: the candidate search behind
  \<^verbatim>\<open>GET /projects/:id/suitable-engineers\<close> runs on the server and is not in the sources;
  the client only has the call \<^verbatim>\<open>getSuitableEngineers(projectId)\<close>. Following the spec's
  capacity calculator: the allocations (a missing one counting 0) of the engineer's
  assignments that end on or after now are summed, and the available capacity is
  the maximum capacity (100 if absent) minus that sum, not below 0.
\<close>

definition computeCapacity :: "User \<Rightarrow> PopulatedRef Assignment list \<Rightarrow> int \<Rightarrow> int \<times> int" where
  "computeCapacity engineer assigns now =
     (let current =
            sum_list (map (\<lambda>a. case allocationPercentage a of None \<Rightarrow> 0 | Some p \<Rightarrow> p)
              (filter (\<lambda>a. ref_id (engineerId a) = user_id engineer
                            \<and> date_ge (endDate a) (Some now)) assigns))
      in (current,
          max 0 ((case maxCapacity engineer of None \<Rightarrow> 100 | Some m \<Rightarrow> m) - current)))"

text \<open>
  Modelled from the spec: the suitability matcher, absent from the sources for the
  same reason. An engineer is a candidate iff the engineer's skill set and the
  project's required-skills set have a skill in common; absent lists are empty;
  candidates keep the order of the engineer list and carry their capacities.
\<close>

definition findSuitableEngineers ::
  "Project \<Rightarrow> User list \<Rightarrow> PopulatedRef Assignment list \<Rightarrow> int
     \<Rightarrow> (User \<times> int \<times> int) list" where
  "findSuitableEngineers project engineers assigns now =
     (let required = (case requiredSkills project of None \<Rightarrow> [] | Some sk \<Rightarrow> sk)
      in map (\<lambda>engineer. (engineer, computeCapacity engineer assigns now))
           (filter (\<lambda>engineer.
                      list_ex (\<lambda>skill. skill \<in> set required)
                        (case skills engineer of None \<Rightarrow> [] | Some sk \<Rightarrow> sk))
              engineers))"

section \<open>The capacity calculator as the specification words it\<close>

text \<open>
  For comparison with the two \<^verbatim>\<open>engineersWithCapacity\<close> maps: an assignment is
  current when its end date is a valid date on or after now, a missing allocation
  counts 0, and the current capacity of an engineer is the sum over all assignments
  of the allocation of those that are current and carry the engineer's id
  (\<open>idOf\<close> reads the id from the assignment).
\<close>

definition endsOnOrAfter :: "int \<Rightarrow> 'r Assignment \<Rightarrow> bool" where
  "endsOnOrAfter now a = (case endDate a of None \<Rightarrow> False | Some t \<Rightarrow> now \<le> t)"

definition allocationOrZero :: "'r Assignment \<Rightarrow> int" where
  "allocationOrZero a = (case allocationPercentage a of None \<Rightarrow> 0 | Some p \<Rightarrow> p)"

definition activeAllocation ::
  "('r Assignment \<Rightarrow> string) \<Rightarrow> int \<Rightarrow> 'r Assignment list \<Rightarrow> User \<Rightarrow> int" where
  "activeAllocation idOf now assigns e =
     (\<Sum>a\<leftarrow>assigns. if idOf a = user_id e \<and> endsOnOrAfter now a
                      then allocationOrZero a else 0)"

section \<open>The specification's calendar example\<close>

text \<open>The assignment A of the specification's bucketing example, with the start
  date 2024-01-10 and the end date 2024-01-20 as the API delivers them.\<close>

definition exampleAssignment :: "IdOrRef Assignment" where
  "exampleAssignment =
     \<lparr>assignment_id = ''a1'', engineerId = IdString ''e1'', projectId = IdString ''p1'',
      allocationPercentage = Some 50,
      startDate = isoDate 2024 1 10, endDate = isoDate 2024 1 20,
      role = ''Developer''\<rparr>"

section \<open>The upcoming query as the specification words it\<close>

text \<open>An assignment is upcoming when its start date is a valid date on or after
  now.\<close>

definition startsOnOrAfter :: "int \<Rightarrow> 'r Assignment \<Rightarrow> bool" where
  "startsOnOrAfter now a = (case startDate a of None \<Rightarrow> False | Some t \<Rightarrow> now \<le> t)"

section \<open>Interval containment as the specification words it\<close>

text \<open>\<open>containsInstant\<close>: the instant lies between the start and the end of the
  assignment, both ends inclusive and both dates valid. \<open>firstOfMonth\<close> is the time
  value of \<^verbatim>\<open>new Date(year, monthIndex, 1)\<close>, the first day of a month.\<close>

definition containsInstant :: "int \<Rightarrow> 'r Assignment \<Rightarrow> bool" where
  "containsInstant d a =
     (case startDate a of None \<Rightarrow> False
      | Some s \<Rightarrow> (case endDate a of None \<Rightarrow> False | Some e \<Rightarrow> s \<le> d \<and> d \<le> e))"

definition firstOfMonth :: "(int \<Rightarrow> int) \<Rightarrow> int \<Rightarrow> int \<Rightarrow> int" where
  "firstOfMonth tz y m = dateDay y m 1 * msPerDay + tz (dateDay y m 1) * 60000"

section \<open>Skill demand as the specification words it\<close>

text \<open>
  The skills a project requires (none when the list is missing), the skills of all
  projects in the order they are met, the distinct ones in first-seen order, the
  number of times a skill occurs in all lists, and the number of projects that
  require it.
\<close>

definition skillsOf :: "Project \<Rightarrow> string list" where
  "skillsOf p = (case requiredSkills p of None \<Rightarrow> [] | Some sk \<Rightarrow> sk)"

definition allRequiredSkills :: "Project list \<Rightarrow> string list" where
  "allRequiredSkills ps = concat (map skillsOf ps)"

fun firstSeen :: "string list \<Rightarrow> string list" where
  "firstSeen [] = []"
| "firstSeen (x # xs) = x # filter (\<lambda>y. y \<noteq> x) (firstSeen xs)"

definition occurrences :: "string \<Rightarrow> Project list \<Rightarrow> int" where
  "occurrences s ps = int (count_list (allRequiredSkills ps) s)"

definition projectsRequiring :: "string \<Rightarrow> Project list \<Rightarrow> int" where
  "projectsRequiring s ps = int (length (filter (\<lambda>p. s \<in> set (skillsOf p)) ps))"

text \<open>The count an object holds for a key, 0 when the key is not there; an object
  is numeric when all its values are numbers; a skill list is plain when none of
  its labels names a member of \<^verbatim>\<open>Object.prototype\<close>.\<close>

definition countOf :: "jsval jsobject \<Rightarrow> string \<Rightarrow> int" where
  "countOf obj s = (case map_of obj s of None \<Rightarrow> 0 | Some v \<Rightarrow> numberOf v)"

definition numeric :: "jsval jsobject \<Rightarrow> bool" where
  "numeric obj = list_all (\<lambda>kv. isNumber (snd kv)) obj"

definition plainLabels :: "string list \<Rightarrow> bool" where
  "plainLabels xs = list_all (\<lambda>s. s \<notin> set inheritedNames) xs"

section \<open>Duration in days\<close>

lemma ceiling_div_bounds:
  fixes x :: int
  shows "(\<lceil>(of_int x :: rat) / of_int msPerDay\<rceil> - 1) * msPerDay < x
         \<and> x \<le> \<lceil>(of_int x :: rat) / of_int msPerDay\<rceil> * msPerDay"
proof -
  define q :: rat where "q = of_int x / of_int msPerDay"
  have pos: "(0::rat) < of_int msPerDay" by (simp add: msPerDay_def)
  have x_eq: "(of_int x :: rat) = q * of_int msPerDay"
    using pos by (simp add: q_def)
  have "of_int (\<lceil>q\<rceil> - 1) < q" by linarith
  then have "of_int (\<lceil>q\<rceil> - 1) * (of_int msPerDay :: rat) < q * of_int msPerDay"
    using pos by (rule mult_strict_right_mono)
  then have "(of_int ((\<lceil>q\<rceil> - 1) * msPerDay) :: rat) < of_int x"
    by (simp add: x_eq)
  then have lower: "(\<lceil>q\<rceil> - 1) * msPerDay < x"
    by (simp only: of_int_less_iff)
  have "q \<le> of_int \<lceil>q\<rceil>" by linarith
  then have "q * of_int msPerDay \<le> of_int \<lceil>q\<rceil> * (of_int msPerDay :: rat)"
    using pos by (intro mult_right_mono) simp_all
  then have "(of_int x :: rat) \<le> of_int (\<lceil>q\<rceil> * msPerDay)"
    by (simp add: x_eq)
  then have upper: "x \<le> \<lceil>q\<rceil> * msPerDay"
    by (simp only: of_int_le_iff)
  from lower upper show ?thesis by (simp add: q_def)
qed

text \<open>
  C3 (as the code has it). For two valid dates \<^verbatim>\<open>getDuration\<close> returns the ceiling of
  (end - start) in whole days, the one integer \<open>d\<close> with
  \<open>(d - 1) days < end - start \<le> d days\<close>. Nothing clamps it: the result is
  non-negative when end is on or after start (indeed whenever end is less than a
  day before start), and negative exactly when end is a whole day or more before
  start.
\<close>

theorem getDuration_ceiling_unclamped:
  "\<exists>d. getDuration (Some s) (Some e) = Some d
       \<and> (d - 1) * msPerDay < e - s \<and> e - s \<le> d * msPerDay
       \<and> (s \<le> e \<longrightarrow> 0 \<le> d)
       \<and> (d < 0 \<longleftrightarrow> e - s \<le> - msPerDay)"
proof -
  define d where "d = \<lceil>(of_int (e - s) :: rat) / of_int msPerDay\<rceil>"
  have res: "getDuration (Some s) (Some e) = Some d"
    by (simp add: getDuration_def d_def)
  have b: "(d - 1) * msPerDay < e - s \<and> e - s \<le> d * msPerDay"
    unfolding d_def by (rule ceiling_div_bounds)
  have pos: "0 < msPerDay" by (simp add: msPerDay_def)
  have nonneg: "0 \<le> d" if "s \<le> e"
  proof (rule ccontr)
    assume "\<not> 0 \<le> d"
    then have "d \<le> - 1" by simp
    then have "d * msPerDay \<le> (- 1) * msPerDay"
      using pos by (intro mult_right_mono) simp_all
    with b that pos show False by simp
  qed
  have neg_iff: "d < 0 \<longleftrightarrow> e - s \<le> - msPerDay"
  proof
    assume "d < 0"
    then have "d \<le> - 1" by simp
    then have "d * msPerDay \<le> (- 1) * msPerDay"
      using pos by (intro mult_right_mono) simp_all
    with b show "e - s \<le> - msPerDay" by simp
  next
    assume a: "e - s \<le> - msPerDay"
    show "d < 0"
    proof (rule ccontr)
      assume "\<not> d < 0"
      then have "0 \<le> d - 1 + 1" by simp
      then have "1 \<le> d \<or> d = 0" by linarith
      then show False
      proof
        assume "1 \<le> d"
        then have "0 \<le> (d - 1) * msPerDay" using pos by simp
        with b a pos show False by simp
      next
        assume "d = 0"
        with b a show False by simp
      qed
    qed
  qed
  from res b nonneg neg_iff show ?thesis by blast
qed

theorem getDuration_ceiling_unclamped_witness:
  "getDuration (isoDate 2024 1 10) (isoDate 2024 1 20) = Some 10
   \<and> getDuration (Some 0) (Some 1) = Some 1"
proof -
  have a: "getDuration (isoDate 2024 1 10) (isoDate 2024 1 20) = Some 10"
    by (simp add: getDuration_def isoDate_def daysFromCivil_def msPerDay_def)
  obtain d where d: "getDuration (Some 0) (Some 1) = Some d"
    "(d - 1) * msPerDay < 1 - 0" "1 - 0 \<le> d * msPerDay"
    using getDuration_ceiling_unclamped [of 0 1] by blast
  from d(2) have "d \<le> 1" by (simp add: msPerDay_def)
  moreover from d(3) have "1 \<le> d" by (simp add: msPerDay_def)
  ultimately have "d = 1" by simp
  with a d(1) show ?thesis by simp
qed

text \<open>
  C3 as stated fails: for a project that ends ten days before it starts the page
  shows -10 days, not 0.
\<close>

theorem getDuration_negative_counterexample:
  "getDuration (isoDate 2024 1 20) (isoDate 2024 1 10) = Some (- 10)
   \<and> getDuration (isoDate 2024 1 20) (isoDate 2024 1 10) \<noteq> Some 0"
  by (simp add: getDuration_def isoDate_def daysFromCivil_def msPerDay_def)

section \<open>Progress of a project\<close>

lemma getProgress_regular:
  assumes "e \<noteq> s"
  shows "getProgress n (Some s) (Some e)
           = Num (min (max (of_int (n - s) / of_int (e - s) * 100) 0) 100)"
  using assms by (simp add: getProgress_def js_div_def)

lemma getProgress_after:
  assumes "s < n"
  shows "getProgress n (Some s) (Some s) = Num 100"
  using assms by (simp add: getProgress_def js_div_def)

lemma getProgress_before:
  assumes "n < s"
  shows "getProgress n (Some s) (Some s) = Num 0"
  using assms by (simp add: getProgress_def js_div_def)

text \<open>
  C4 (as the code has it). For valid dates with end different from start,
  \<^verbatim>\<open>getProgress\<close> returns 100 * (now - start) / (end - start) clamped to the range
  0..100. In the degenerate case end = start the quotient is an infinity that the
  clamp absorbs: the result is 100 when now is after start and 0 when now is
  before start. In all these cases the result is a number between 0 and 100.
\<close>

theorem getProgress_clamped:
  "(e \<noteq> s \<longrightarrow> getProgress n (Some s) (Some e)
        = Num (min (max (of_int (n - s) / of_int (e - s) * 100) 0) 100))
   \<and> (s < n \<longrightarrow> getProgress n (Some s) (Some s) = Num 100)
   \<and> (n < s \<longrightarrow> getProgress n (Some s) (Some s) = Num 0)
   \<and> (e \<noteq> s \<or> n \<noteq> s \<longrightarrow>
        (\<exists>p. getProgress n (Some s) (Some e) = Num p \<and> 0 \<le> p \<and> p \<le> 100))"
proof -
  have last: "\<exists>p. getProgress n (Some s) (Some e) = Num p \<and> 0 \<le> p \<and> p \<le> 100"
    if "e \<noteq> s \<or> n \<noteq> s"
  proof (cases "e = s")
    case False
    then show ?thesis by (simp add: getProgress_regular)
  next
    case True
    with that have "n < s \<or> s < n" by linarith
    then show ?thesis
      using True getProgress_after [of s n] getProgress_before [of n s] by auto
  qed
  show ?thesis
    using getProgress_regular [of e s n] getProgress_after [of s n]
      getProgress_before [of n s] last
    by blast
qed

theorem getProgress_clamped_witness:
  "getProgress 15 (Some 10) (Some 30) = Num 25
   \<and> getProgress 11 (Some 10) (Some 10) = Num 100
   \<and> getProgress 9 (Some 10) (Some 10) = Num 0"
  using getProgress_clamped [of 30 10 15] getProgress_clamped [of 10 10 11]
    getProgress_clamped [of 10 10 9]
  by simp

text \<open>
  C4 as stated fails in the degenerate case: a zero-length project that has not
  begun shows 0, not 100, and at the very instant now = start = end the quotient is
  0 / 0 and the result is NaN.
\<close>

theorem getProgress_degenerate_counterexample:
  "getProgress 1704844799999 (isoDate 2024 1 10) (isoDate 2024 1 10) = Num 0
   \<and> getProgress 1704844799999 (isoDate 2024 1 10) (isoDate 2024 1 10) \<noteq> Num 100
   \<and> getProgress 1704844800000 (isoDate 2024 1 10) (isoDate 2024 1 10) = NaN"
  by (simp add: getProgress_def js_div_def isoDate_def daysFromCivil_def msPerDay_def)

section \<open>Capacity of each engineer\<close>

lemma foldl_add_sum_list:
  fixes f :: "'a \<Rightarrow> int"
  shows "foldl (\<lambda>sum a. sum + f a) z xs = z + sum_list (map f xs)"
  by (induction xs arbitrary: z) simp_all

lemma reduce_filter_sum:
  fixes f :: "'a \<Rightarrow> int"
  shows "foldl (\<lambda>sum a. sum + f a) 0 (filter P xs)
           = (\<Sum>a\<leftarrow>xs. if P a then f a else 0)"
  by (simp add: foldl_add_sum_list sum_list_map_filter')

lemma orZero_allocation: "orZero (allocationPercentage a) = allocationOrZero a"
  by (simp add: orZero_def allocationOrZero_def split: option.splits)

lemma date_ge_now: "date_ge (endDate a) (Some now) = endsOnOrAfter now a"
  by (simp add: date_ge_def endsOnOrAfter_def split: option.splits)

lemma dashboard_currentCapacity:
  "map currentCapacity (dashboardEngineersWithCapacity now engs assigns)
     = map (activeAllocation getEngineerId now assigns) engs"
  by (simp add: dashboardEngineersWithCapacity_def Let_def reduce_filter_sum
      orZero_allocation date_ge_now activeAllocation_def User.defs EngineerWithCapacity.defs)

lemma dashboard_availableCapacity:
  "map availableCapacity (dashboardEngineersWithCapacity now engs assigns)
     = map (\<lambda>e. max 0 ((case maxCapacity e of None \<Rightarrow> 100
                          | Some m \<Rightarrow> if m = 0 then 100 else m)
                         - activeAllocation getEngineerId now assigns e)) engs"
  by (simp add: dashboardEngineersWithCapacity_def Let_def reduce_filter_sum
      orZero_allocation date_ge_now activeAllocation_def orHundred_def
      User.defs EngineerWithCapacity.defs)

lemma analytics_currentCapacity:
  "map currentCapacity (analyticsEngineersWithCapacity now engs assigns)
     = map (activeAllocation (\<lambda>a. ref_id (engineerId a)) now assigns) engs"
  by (simp add: analyticsEngineersWithCapacity_def Let_def reduce_filter_sum
      orZero_allocation date_ge_now activeAllocation_def User.defs EngineerWithCapacity.defs)

lemma analytics_availableCapacity:
  "map availableCapacity (analyticsEngineersWithCapacity now engs assigns)
     = map (\<lambda>e. max 0 ((case maxCapacity e of None \<Rightarrow> 100 | Some m \<Rightarrow> m)
                         - activeAllocation (\<lambda>a. ref_id (engineerId a)) now assigns e)) engs"
  by (simp add: analyticsEngineersWithCapacity_def Let_def reduce_filter_sum
      orZero_allocation date_ge_now activeAllocation_def nullishHundred_def
      User.defs EngineerWithCapacity.defs)

text \<open>
  What the two maps compute. For every engineer list, assignment list and instant
  now, both pages give each engineer, in order, a \<^verbatim>\<open>currentCapacity\<close> equal to the sum
  of \<^verbatim>\<open>allocationPercentage\<close> (a missing one contributing 0) over exactly the
  assignments that carry the engineer's id and end on or after now, with no
  condition on the start date, and an \<^verbatim>\<open>availableCapacity\<close> equal to
  max(0, maxCapacity - currentCapacity). On the analytics page maxCapacity is 100
  when absent; the dashboard takes 100 when it is absent and also when it is 0.
\<close>

lemma engineersWithCapacity_sums:
  "map currentCapacity (dashboardEngineersWithCapacity now engs assigns)
     = map (activeAllocation getEngineerId now assigns) engs
   \<and> map availableCapacity (dashboardEngineersWithCapacity now engs assigns)
     = map (\<lambda>e. max 0 ((case maxCapacity e of None \<Rightarrow> 100
                          | Some m \<Rightarrow> if m = 0 then 100 else m)
                         - activeAllocation getEngineerId now assigns e)) engs
   \<and> map currentCapacity (analyticsEngineersWithCapacity now engs' assigns')
     = map (activeAllocation (\<lambda>a. ref_id (engineerId a)) now assigns') engs'
   \<and> map availableCapacity (analyticsEngineersWithCapacity now engs' assigns')
     = map (\<lambda>e. max 0 ((case maxCapacity e of None \<Rightarrow> 100 | Some m \<Rightarrow> m)
                         - activeAllocation (\<lambda>a. ref_id (engineerId a)) now assigns' e)) engs'"
  by (simp only: dashboard_currentCapacity dashboard_availableCapacity
      analytics_currentCapacity analytics_availableCapacity simp_thms)

text \<open>An engineer e1 with no maxCapacity and three assignments at now = 1000: one
  current with 50, one of another engineer, one current but not yet started with no
  allocation. The sum is 50 and 50 remains, on both pages.\<close>

lemma engineersWithCapacity_sums_example:
  "map currentCapacity (dashboardEngineersWithCapacity 1000
      [\<lparr>user_id = ''e1'', user_name = ''Ann'', skills = None, seniority = None,
        maxCapacity = None\<rparr>]
      [\<lparr>assignment_id = ''a1'', engineerId = IdString ''e1'', projectId = IdString ''p1'',
        allocationPercentage = Some 50, startDate = Some 0, endDate = Some 1000,
        role = ''Developer''\<rparr>,
       \<lparr>assignment_id = ''a2'', engineerId = IdString ''e2'', projectId = IdString ''p1'',
        allocationPercentage = Some 30, startDate = Some 0, endDate = Some 2000,
        role = ''Developer''\<rparr>,
       \<lparr>assignment_id = ''a3'',
        engineerId = Expanded \<lparr>ref_id = ''e1'', ref_name = ''Ann''\<rparr>,
        projectId = IdString ''p2'',
        allocationPercentage = None, startDate = Some 5000, endDate = Some 6000,
        role = ''Tech Lead''\<rparr>]) = [50]
   \<and> map availableCapacity (analyticsEngineersWithCapacity 1000
      [\<lparr>user_id = ''e1'', user_name = ''Ann'', skills = None, seniority = None,
        maxCapacity = None\<rparr>]
      [\<lparr>assignment_id = ''a1'',
        engineerId = \<lparr>ref_id = ''e1'', ref_name = ''Ann''\<rparr>,
        projectId = \<lparr>ref_id = ''p1'', ref_name = ''Shop''\<rparr>,
        allocationPercentage = Some 50, startDate = Some 0, endDate = Some 1000,
        role = ''Developer''\<rparr>]) = [50]"
proof -
  let ?e = "\<lparr>user_id = ''e1'', user_name = ''Ann'', skills = None, seniority = None,
             maxCapacity = None\<rparr>"
  let ?as = "[\<lparr>assignment_id = ''a1'', engineerId = IdString ''e1'',
        projectId = IdString ''p1'',
        allocationPercentage = Some 50, startDate = Some 0, endDate = Some 1000,
        role = ''Developer''\<rparr>,
       \<lparr>assignment_id = ''a2'', engineerId = IdString ''e2'', projectId = IdString ''p1'',
        allocationPercentage = Some 30, startDate = Some 0, endDate = Some 2000,
        role = ''Developer''\<rparr>,
       \<lparr>assignment_id = ''a3'',
        engineerId = Expanded \<lparr>ref_id = ''e1'', ref_name = ''Ann''\<rparr>,
        projectId = IdString ''p2'',
        allocationPercentage = None, startDate = Some 5000, endDate = Some 6000,
        role = ''Tech Lead''\<rparr>]"
  let ?as' = "[\<lparr>assignment_id = ''a1'',
        engineerId = \<lparr>ref_id = ''e1'', ref_name = ''Ann''\<rparr>,
        projectId = \<lparr>ref_id = ''p1'', ref_name = ''Shop''\<rparr>,
        allocationPercentage = Some 50, startDate = Some 0, endDate = Some 1000,
        role = ''Developer''\<rparr>]"
  show ?thesis
    using engineersWithCapacity_sums [of 1000 "[?e]" ?as "[?e]" ?as']
    by (simp add: activeAllocation_def getEngineerId_def endsOnOrAfter_def
        allocationOrZero_def)
qed

text \<open>For engineers whose maxCapacity is not 0 the dashboard agrees with the
  analytics page: 100 stands in for a missing maxCapacity only.\<close>

lemma dashboard_availableCapacity_nonzero:
  assumes "list_all (\<lambda>e. maxCapacity e \<noteq> Some 0) engs"
  shows "map availableCapacity (dashboardEngineersWithCapacity now engs assigns)
           = map (\<lambda>e. max 0 ((case maxCapacity e of None \<Rightarrow> 100 | Some m \<Rightarrow> m)
                               - activeAllocation getEngineerId now assigns e)) engs"
proof -
  have "(case maxCapacity e of None \<Rightarrow> 100 | Some m \<Rightarrow> if m = 0 then 100 else m)
          = (case maxCapacity e of None \<Rightarrow> 100 | Some m \<Rightarrow> m)"
    if "e \<in> set engs" for e
    using assms that by (auto simp: list_all_iff split: option.splits)
  then show ?thesis
    by (simp add: dashboard_availableCapacity cong: map_cong)
qed


section \<open>Team analytics: averages and thresholds\<close>

lemma overloaded_test_int:
  "((of_int m :: rat) * (9 / 10) < of_int c) = (9 * m < 10 * c)"
proof -
  have "((of_int m :: rat) * (9 / 10) < of_int c) = ((of_int (9 * m) :: rat) < of_int (10 * c))"
    by (simp add: field_simps)
  also have "\<dots> = (9 * m < 10 * c)"
    by (simp only: of_int_less_iff)
  finally show ?thesis .
qed

lemma overloadedEngineers_count:
  "overloadedEngineers es
     = card {i. i < length es
               \<and> 9 * orHundred (maxCapacity (es ! i)) < 10 * currentCapacity (es ! i)}"
  by (simp only: overloadedEngineers_def overloaded_test_int length_filter_conv_card)

lemma underutilizedEngineers_count:
  "underutilizedEngineers es = card {i. i < length es \<and> 20 < availableCapacity (es ! i)}"
  by (simp add: underutilizedEngineers_def length_filter_conv_card)

lemma overloadedEngineers_Cons:
  "overloadedEngineers (e # es)
     = (if 9 * orHundred (maxCapacity e) < 10 * currentCapacity e then 1 else 0)
       + overloadedEngineers es"
  by (simp only: overloadedEngineers_def overloaded_test_int filter.simps)
     (simp split: if_splits)

lemma underutilizedEngineers_Cons:
  "underutilizedEngineers (e # es)
     = (if 20 < availableCapacity e then 1 else 0) + underutilizedEngineers es"
  by (simp add: underutilizedEngineers_def)

text \<open>
  The two counts, in the defaulting of the source: positions whose engineer has
  currentCapacity strictly greater than nine tenths of \<^verbatim>\<open>maxCapacity || 100\<close>, and
  positions whose engineer has availableCapacity strictly greater than 20.
\<close>

lemma overloaded_underutilized_counts:
  "overloadedEngineers es
     = card {i. i < length es
               \<and> 9 * orHundred (maxCapacity (es ! i)) < 10 * currentCapacity (es ! i)}
   \<and> underutilizedEngineers es = card {i. i < length es \<and> 20 < availableCapacity (es ! i)}"
  using overloadedEngineers_count [of es] underutilizedEngineers_count [of es] by blast

text \<open>
  Where no engineer has maxCapacity 0, \<^verbatim>\<open>overloadedEngineers\<close> counts exactly the
  engineers with currentCapacity strictly greater than nine tenths of maxCapacity,
  100 standing in for a missing maxCapacity only; so a part-time engineer is
  measured against 50. An engineer exactly at nine tenths, or with exactly 20
  available, adds nothing to either count.
\<close>

lemma overloadedEngineers_count_nonzero:
  assumes "list_all (\<lambda>e. maxCapacity e \<noteq> Some 0) es"
  shows "overloadedEngineers es
           = card {i. i < length es
                     \<and> 9 * (case maxCapacity (es ! i) of None \<Rightarrow> 100 | Some m \<Rightarrow> m)
                         < 10 * currentCapacity (es ! i)}"
proof -
  have "orHundred (maxCapacity (es ! i))
          = (case maxCapacity (es ! i) of None \<Rightarrow> 100 | Some m \<Rightarrow> m)"
    if "i < length es" for i
  proof -
    from assms that have "maxCapacity (es ! i) \<noteq> Some 0"
      by (simp add: list_all_length)
    then show ?thesis by (simp add: orHundred_def split: option.splits)
  qed
  then have "{i. i < length es
                \<and> 9 * orHundred (maxCapacity (es ! i)) < 10 * currentCapacity (es ! i)}
             = {i. i < length es
                \<and> 9 * (case maxCapacity (es ! i) of None \<Rightarrow> 100 | Some m \<Rightarrow> m)
                    < 10 * currentCapacity (es ! i)}"
    by auto
  then show ?thesis by (simp only: overloadedEngineers_count)
qed

lemma overloadedEngineers_at_threshold:
  assumes "10 * currentCapacity e = 9 * orHundred (maxCapacity e)"
  shows "overloadedEngineers (e # es) = overloadedEngineers es"
  using assms by (simp add: overloadedEngineers_Cons)

lemma underutilizedEngineers_at_threshold:
  assumes "availableCapacity e = 20"
  shows "underutilizedEngineers (e # es) = underutilizedEngineers es"
  using assms by (simp add: underutilizedEngineers_Cons)

text \<open>Of four engineers, one at 90 of a missing maxCapacity with 20 available, one at
  91 of 100 with 21 available, a part-time one at 45 of 50 and a part-time one at 46
  of 50, the second and the fourth are overloaded and only the second is
  available.\<close>

lemma overloaded_underutilized_example:
  "overloadedEngineers
     [\<lparr>user_id = ''e1'', user_name = ''Ann'', skills = None, seniority = None,
       maxCapacity = None, currentCapacity = 90, availableCapacity = 20,
       assignments = (None :: PopulatedRef Assignment list option)\<rparr>,
      \<lparr>user_id = ''e2'', user_name = ''Bob'', skills = None, seniority = None,
       maxCapacity = Some 100, currentCapacity = 91, availableCapacity = 21,
       assignments = None\<rparr>,
      \<lparr>user_id = ''e3'', user_name = ''Cy'', skills = None, seniority = None,
       maxCapacity = Some 50, currentCapacity = 45, availableCapacity = 5,
       assignments = None\<rparr>,
      \<lparr>user_id = ''e4'', user_name = ''Di'', skills = None, seniority = None,
       maxCapacity = Some 50, currentCapacity = 46, availableCapacity = 4,
       assignments = None\<rparr>] = 2
   \<and> underutilizedEngineers
     [\<lparr>user_id = ''e1'', user_name = ''Ann'', skills = None, seniority = None,
       maxCapacity = None, currentCapacity = 90, availableCapacity = 20,
       assignments = (None :: PopulatedRef Assignment list option)\<rparr>,
      \<lparr>user_id = ''e2'', user_name = ''Bob'', skills = None, seniority = None,
       maxCapacity = Some 100, currentCapacity = 91, availableCapacity = 21,
       assignments = None\<rparr>,
      \<lparr>user_id = ''e3'', user_name = ''Cy'', skills = None, seniority = None,
       maxCapacity = Some 50, currentCapacity = 45, availableCapacity = 5,
       assignments = None\<rparr>,
      \<lparr>user_id = ''e4'', user_name = ''Di'', skills = None, seniority = None,
       maxCapacity = Some 50, currentCapacity = 46, availableCapacity = 4,
       assignments = None\<rparr>] = 1"
  by (simp add: overloadedEngineers_def underutilizedEngineers_def orHundred_def)


lemma averageUtilization_empty: "averageUtilization [] = Num 0"
  by (simp add: averageUtilization_def)

lemma averageUtilization_mean:
  assumes "es \<noteq> []"
  shows "averageUtilization es
           = Num (of_int (\<Sum>e\<leftarrow>es. currentCapacity e) / of_nat (length es))"
  using assms by (simp add: averageUtilization_def js_div_def foldl_add_sum_list)

lemma averageUtilization_is_number: "\<exists>q. averageUtilization es = Num q"
  by (cases "es = []") (simp_all add: averageUtilization_empty averageUtilization_mean)

lemma coverage_without_required:
  assumes "totalRequired (skillGapAnalysis projects engineers) = 0"
  shows "coverage (skillGapAnalysis projects engineers)
           = (if totalAvailable (skillGapAnalysis projects engineers) = 0 then NaN else PosInf)"
  using assms by (simp add: skillGapAnalysis_def Let_def js_div_def)

text \<open>
  C2 at a failing input. \<^verbatim>\<open>averageUtilization\<close> is guarded and is 0 on the empty
  engineer list (\<open>averageUtilization_empty\<close>), but the coverage of the skill-gap
  analysis divides by the number of required skills unguarded: with no project at
  all and one engineer who knows Go it is Infinity, and with one project that
  requires nothing and no engineer it is NaN; in neither case 0.
\<close>

theorem coverage_empty_required_not_zero:
  "coverage (skillGapAnalysis []
      [\<lparr>user_id = ''e1'', user_name = ''Ann'', skills = Some [''Go''], seniority = None,
        maxCapacity = Some 100, currentCapacity = 0, availableCapacity = 100,
        assignments = (None :: PopulatedRef Assignment list option)\<rparr>]) = PosInf
   \<and> coverage (skillGapAnalysis
      [\<lparr>project_id = ''p1'', project_name = ''Shop'', status = ''active'', teamSize = 3,
        requiredSkills = Some []\<rparr>]
      ([] :: PopulatedRef EngineerWithCapacity list)) = NaN"
  by (simp add: skillGapAnalysis_def Let_def js_div_def set_add_def)

section \<open>Calendar buckets of the timeline\<close>

lemma getAssignmentsForDate_iff:
  "a \<in> set (getAssignmentsForDate filtered (Some d))
     \<longleftrightarrow> a \<in> set filtered
         \<and> (\<exists>s e. startDate a = Some s \<and> endDate a = Some e \<and> s \<le> d \<and> d \<le> e)"
  by (cases "startDate a"; cases "endDate a")
     (simp_all add: getAssignmentsForDate_def date_ge_def date_le_def)

lemma length_calendarDays: "length (calendarDays tz y m filtered) = getDaysInMonth y m"
  by (simp add: calendarDays_def)

lemma nth_calendarDays:
  assumes "i < getDaysInMonth y m"
  shows "calendarDays tz y m filtered ! i
           = getAssignmentsForDate filtered (localDate tz y m (int i + 1))"
  using assms by (simp add: calendarDays_def)

lemma days_jan_2024: "getDaysInMonth 2024 0 = 31"
  by code_simp

lemma localDate_jan_2024:
  "localDate tz 2024 0 d = Some ((19722 + d) * 86400000 + tz (19722 + d) * 60000)"
  by (simp add: localDate_def makeDay_def daysFromCivil_def msPerDay_def Let_def)

lemma isoDate_jan_2024: "isoDate 2024 1 d = Some ((19722 + d) * 86400000)"
  by (simp add: isoDate_def daysFromCivil_def msPerDay_def Let_def)

lemma example_bucket:
  assumes "i < 31"
  shows "calendarDays tz 2024 0 [exampleAssignment] ! i
           = (if 9 * 1440 \<le> int i * 1440 + tz (19723 + int i)
                 \<and> int i * 1440 + tz (19723 + int i) \<le> 19 * 1440
              then [exampleAssignment] else [])"
proof -
  have "calendarDays tz 2024 0 [exampleAssignment] ! i
          = getAssignmentsForDate [exampleAssignment] (localDate tz 2024 0 (int i + 1))"
    using assms by (simp add: nth_calendarDays days_jan_2024)
  also have "\<dots> = (if 9 * 1440 \<le> int i * 1440 + tz (19723 + int i)
                        \<and> int i * 1440 + tz (19723 + int i) \<le> 19 * 1440
                     then [exampleAssignment] else [])"
    by (simp add: localDate_jan_2024 exampleAssignment_def isoDate_jan_2024
        getAssignmentsForDate_def date_ge_def date_le_def)
  finally show ?thesis .
qed

text \<open>In a browser whose local time is UTC the grid does what the example says:
  cell \<open>i\<close> is day \<open>i + 1\<close>, and A is in the cells of days 10 to 20 only.\<close>

lemma example_bucket_utc:
  assumes "i < 31"
  shows "calendarDays (\<lambda>day. 0) 2024 0 [exampleAssignment] ! i
           = (if 9 \<le> i \<and> i \<le> 19 then [exampleAssignment] else [])"
  using assms by (simp add: example_bucket)

text \<open>A zone with daylight saving is a \<open>tz\<close> that changes with the day. New York is
  at UTC-5 up to 10 March 2024 and at UTC-4 after it; an assignment entered there
  from local midnight of 5 March to local midnight of 25 March lies in the cells of
  days 5 to 25.\<close>

lemma days_mar_2024: "getDaysInMonth 2024 2 = 31"
  by code_simp

lemma localDate_mar_2024:
  "localDate tz 2024 2 d = Some ((19782 + d) * 86400000 + tz (19782 + d) * 60000)"
  by (simp add: localDate_def makeDay_def daysFromCivil_def msPerDay_def Let_def)

lemma calendarDays_daylight_saving:
  "map (\<lambda>i. length (calendarDays (\<lambda>day. if day \<le> 19792 then 300 else 240) 2024 2
      [exampleAssignment\<lparr>startDate := Some 1709614800000,
                         endDate := Some 1711339200000\<rparr>] ! i)) [3, 4, 24, 25]
     = [0, 1, 1, 0]"
  by (simp add: nth_calendarDays days_mar_2024 localDate_mar_2024 getAssignmentsForDate_def
      date_ge_def date_le_def)

text \<open>
  C5 at a failing input. The comparison \<^verbatim>\<open>date >= start && date <= end\<close> is inclusive
  at both ends (\<open>getAssignmentsForDate_iff\<close>), but the cell's date is a local
  midnight while the assignment's dates are UTC midnights. East of Greenwich the
  first day is lost: at UTC+1 the bucket of 10 January does not hold A (that of
  the 11th does). West of Greenwich the last day is lost: at UTC-5 the bucket of
  20 January does not hold A (that of the 19th does).
\<close>

theorem calendarDays_boundary_day_lost:
  "calendarDays (\<lambda>day. - 60) 2024 0 [exampleAssignment] ! 9 = []
   \<and> calendarDays (\<lambda>day. - 60) 2024 0 [exampleAssignment] ! 10 = [exampleAssignment]
   \<and> calendarDays (\<lambda>day. 300) 2024 0 [exampleAssignment] ! 19 = []
   \<and> calendarDays (\<lambda>day. 300) 2024 0 [exampleAssignment] ! 18 = [exampleAssignment]"
  by (simp add: example_bucket)

section \<open>Upcoming assignments\<close>

lemma date_ge_start: "date_ge (startDate a) (Some now) = startsOnOrAfter now a"
  by (simp add: date_ge_def startsOnOrAfter_def split: option.splits)

lemma upcomingAssignments_take:
  "upcomingAssignments now fs = take 10 (sort_key startTime (filter (startsOnOrAfter now) fs))"
  by (simp add: upcomingAssignments_def date_ge_start)

lemma sorted_take_drop_le:
  assumes "sorted (map f xs)" "b \<in> set (take n xs)" "a \<in> set (drop n xs)"
  shows "f b \<le> f a"
proof -
  have "sorted (map f (take n xs) @ map f (drop n xs))"
    using assms(1) by (simp flip: map_append)
  then show ?thesis
    using assms(2,3) by (auto simp: sorted_append)
qed

lemma mset_take_drop: "mset xs - mset (take n xs) = mset (drop n xs)"
proof -
  have "mset xs = mset (take n xs) + mset (drop n xs)"
    by (simp flip: mset_append)
  then show ?thesis by simp
qed

text \<open>
  C8. The upcoming list of the timeline holds only assignments of the filtered list
  whose start date is on or after now, so none that starts before now; it is sorted
  ascending by start date; it is the sorted list of all upcoming assignments cut to
  the cap of 10: its length is the smaller of 10 and their number, it is all of
  them when they are at most 10, and every assignment left out starts no earlier
  than every one shown.
\<close>

theorem upcomingAssignments_sorted_prefix:
  "(\<forall>a \<in> set (upcomingAssignments now fs).
            a \<in> set fs \<and> (\<exists>t. startDate a = Some t \<and> now \<le> t))
   \<and> sorted (map startTime (upcomingAssignments now fs))
   \<and> length (upcomingAssignments now fs) = min 10 (length (filter (startsOnOrAfter now) fs))
   \<and> mset (upcomingAssignments now fs) \<subseteq># mset (filter (startsOnOrAfter now) fs)
   \<and> (length (filter (startsOnOrAfter now) fs) \<le> 10 \<longrightarrow> mset (upcomingAssignments now fs) = mset (filter (startsOnOrAfter now) fs))
   \<and> (\<forall>b \<in> set (upcomingAssignments now fs).
        \<forall>a \<in># mset (filter (startsOnOrAfter now) fs) - mset (upcomingAssignments now fs). startTime b \<le> startTime a)"
proof -
  define up where "up = filter (startsOnOrAfter now) fs"
  let ?S = "sort_key startTime up"
  have res: "upcomingAssignments now fs = take 10 ?S"
    by (simp add: upcomingAssignments_take up_def)
  have srt: "sorted (map startTime ?S)" by simp
  have ms: "mset ?S = mset up" by simp
  have 1: "\<forall>a \<in> set (upcomingAssignments now fs).
            a \<in> set fs \<and> (\<exists>t. startDate a = Some t \<and> now \<le> t)"
  proof
    fix a assume "a \<in> set (upcomingAssignments now fs)"
    then have "a \<in> set ?S" unfolding res by (rule in_set_takeD)
    then have "a \<in> set fs" "startsOnOrAfter now a" by (simp_all add: up_def)
    then show "a \<in> set fs \<and> (\<exists>t. startDate a = Some t \<and> now \<le> t)"
      by (simp add: startsOnOrAfter_def split: option.splits)
  qed
  have 2: "sorted (map startTime (upcomingAssignments now fs))"
    unfolding res using srt by (simp add: take_map [symmetric] sorted_wrt_take del: sorted_sort_key)
  have 3: "length (upcomingAssignments now fs) = min 10 (length up)"
    unfolding res by (simp add: min.commute)
  have 4: "mset (upcomingAssignments now fs) \<subseteq># mset up"
  proof -
    have "mset (take 10 ?S) \<subseteq># mset (take 10 ?S) + mset (drop 10 ?S)" by simp
    also have "\<dots> = mset ?S" by (simp flip: mset_append)
    finally show ?thesis unfolding res by (simp only: ms)
  qed
  have 5: "mset (upcomingAssignments now fs) = mset up" if "length up \<le> 10"
    unfolding res using that by simp
  have 6: "\<forall>b \<in> set (upcomingAssignments now fs).
        \<forall>a \<in># mset up - mset (upcomingAssignments now fs). startTime b \<le> startTime a"
  proof (intro ballI)
    fix b a
    assume b: "b \<in> set (upcomingAssignments now fs)"
      and a: "a \<in># mset up - mset (upcomingAssignments now fs)"
    have "mset up - mset (upcomingAssignments now fs) = mset (drop 10 ?S)"
      unfolding res using mset_take_drop [of ?S 10] by (simp only: ms)
    with a have "a \<in> set (drop 10 ?S)" by simp
    with srt b show "startTime b \<le> startTime a"
      unfolding res by (rule sorted_take_drop_le)
  qed
  from 1 2 3 4 5 6 show ?thesis unfolding up_def by blast
qed

text \<open>At now = 1000, of three assignments starting at 5000, 500 and 2000 the one
  starting at 500 is left out and the other two come in the order 2000, 5000.\<close>

theorem upcomingAssignments_sorted_prefix_witness:
  "upcomingAssignments 1000
     [exampleAssignment\<lparr>startDate := Some 5000\<rparr>,
      exampleAssignment\<lparr>startDate := Some 500\<rparr>,
      exampleAssignment\<lparr>startDate := Some 2000\<rparr>]
     = [exampleAssignment\<lparr>startDate := Some 2000\<rparr>,
        exampleAssignment\<lparr>startDate := Some 5000\<rparr>]
   \<and> mset (upcomingAssignments 1000
       [exampleAssignment\<lparr>startDate := Some 5000\<rparr>,
        exampleAssignment\<lparr>startDate := Some 500\<rparr>,
        exampleAssignment\<lparr>startDate := Some 2000\<rparr>])
     = mset [exampleAssignment\<lparr>startDate := Some 5000\<rparr>,
             exampleAssignment\<lparr>startDate := Some 2000\<rparr>]
   \<and> length (upcomingAssignments 1000
       [exampleAssignment\<lparr>startDate := Some 5000\<rparr>,
        exampleAssignment\<lparr>startDate := Some 500\<rparr>,
        exampleAssignment\<lparr>startDate := Some 2000\<rparr>]) = 2"
proof -
  let ?fs = "[exampleAssignment\<lparr>startDate := Some 5000\<rparr>,
              exampleAssignment\<lparr>startDate := Some 500\<rparr>,
              exampleAssignment\<lparr>startDate := Some 2000\<rparr>]"
  have val: "upcomingAssignments 1000 ?fs
               = [exampleAssignment\<lparr>startDate := Some 2000\<rparr>,
                  exampleAssignment\<lparr>startDate := Some 5000\<rparr>]"
    by (simp add: upcomingAssignments_def date_ge_def startTime_def)
  have up: "filter (startsOnOrAfter 1000) ?fs
              = [exampleAssignment\<lparr>startDate := Some 5000\<rparr>,
                 exampleAssignment\<lparr>startDate := Some 2000\<rparr>]"
    by (simp add: startsOnOrAfter_def)
  have len: "length (filter (startsOnOrAfter 1000) ?fs) \<le> 10"
    by (simp only: up) simp
  from upcomingAssignments_sorted_prefix [of 1000 ?fs] len
  have "mset (upcomingAssignments 1000 ?fs) = mset (filter (startsOnOrAfter 1000) ?fs)"
    and "length (upcomingAssignments 1000 ?fs)
           = min 10 (length (filter (startsOnOrAfter 1000) ?fs))"
    by blast+
  then have "mset (upcomingAssignments 1000 ?fs)
               = mset [exampleAssignment\<lparr>startDate := Some 5000\<rparr>,
                       exampleAssignment\<lparr>startDate := Some 2000\<rparr>]"
    and "length (upcomingAssignments 1000 ?fs) = 2"
    by (simp_all only: up) simp_all
  with val show ?thesis by blast
qed

section \<open>Monthly utilization on the engineer dashboard\<close>

lemma month_filter:
  "(date_le (startDate a) (Some d) \<and> date_ge (endDate a) (Some d)) = containsInstant d a"
  by (simp add: date_le_def date_ge_def containsInstant_def split: option.splits)

lemma js_add_Some: "js_add (Some a) (Some b) = Some (a + b)"
  by (simp add: js_add_def)

lemma foldl_js_add_present:
  assumes "list_all (\<lambda>a. allocationPercentage a \<noteq> None) xs"
  shows "foldl (\<lambda>sum a. js_add sum (allocationPercentage a)) (Some z) xs
           = Some (z + (\<Sum>a\<leftarrow>xs. allocationOrZero a))"
  using assms
proof (induction xs arbitrary: z)
  case Nil
  then show ?case by simp
next
  case (Cons x xs)
  from Cons.prems obtain p where p: "allocationPercentage x = Some p" by auto
  from Cons.prems have "list_all (\<lambda>a. allocationPercentage a \<noteq> None) xs" by simp
  then show ?case
    by (simp add: Cons.IH p js_add_Some allocationOrZero_def)
qed

lemma monthUtilization_sum:
  assumes "list_all (\<lambda>a. allocationPercentage a \<noteq> None) (filter (containsInstant d) assigns)"
  shows "monthUtilization (Some d) assigns
           = Some (min 100 (\<Sum>a\<leftarrow>assigns. if containsInstant d a then allocationOrZero a else 0))"
  using assms
  by (simp add: monthUtilization_def month_filter foldl_js_add_present min100_def
      sum_list_map_filter' min.commute)

lemma monthUtilization_le:
  assumes "monthUtilization month assigns = Some u"
  shows "u \<le> 100"
  using assms by (auto simp: monthUtilization_def min100_def split: option.splits)

lemma monthUtilization_later_start:
  assumes "\<not> containsInstant d a"
  shows "monthUtilization (Some d) (a # assigns) = monthUtilization (Some d) assigns"
  using assms by (simp add: monthUtilization_def month_filter)

lemma nth_getMonthlyData:
  assumes "i < 3"
  shows "getMonthlyData tz y m assigns ! i
           = monthUtilization (localDate tz y (m + int i) 1) assigns"
proof -
  from assms have "i = 0 \<or> i = 1 \<or> i = 2" by linarith
  then show ?thesis by (auto simp: getMonthlyData_def)
qed

lemma localDate_first: "localDate tz y m 1 = Some (firstOfMonth tz y m)"
  by (simp add: localDate_def firstOfMonth_def dateDay_def Let_def)

text \<open>
  What the page computes, in instants: it reports three values, for the month of now
  and the next two. Where every assignment whose interval contains the instant
  \<^verbatim>\<open>new Date(year, month + i, 1)\<close> has an allocation percentage, as the page's types
  say, value \<open>i\<close> is min(100, sum of allocationPercentage over the assignments whose
  [startDate, endDate] contains that instant). No reported number exceeds 100, and
  an assignment that starts after that instant, or has no valid start date,
  contributes nothing to the month.
\<close>

lemma getMonthlyData_instants:
  "length (getMonthlyData tz y m assigns) = 3
   \<and> (\<forall>i<3. list_all (\<lambda>a. allocationPercentage a \<noteq> None)
                 (filter (containsInstant (firstOfMonth tz y (m + int i))) assigns)
        \<longrightarrow> getMonthlyData tz y m assigns ! i
              = Some (min 100 (\<Sum>a\<leftarrow>assigns.
                    if containsInstant (firstOfMonth tz y (m + int i)) a
                    then allocationOrZero a else 0)))
   \<and> (\<forall>u\<in>set (getMonthlyData tz y m assigns). \<forall>v. u = Some v \<longrightarrow> v \<le> 100)
   \<and> (\<forall>i<3. (case startDate a of None \<Rightarrow> True | Some s \<Rightarrow> firstOfMonth tz y (m + int i) < s)
        \<longrightarrow> getMonthlyData tz y m (a # assigns) ! i = getMonthlyData tz y m assigns ! i)"
proof (intro conjI allI impI ballI)
  show "length (getMonthlyData tz y m assigns) = 3"
    by (simp add: getMonthlyData_def)
next
  fix i :: nat
  assume "i < 3"
    and "list_all (\<lambda>a. allocationPercentage a \<noteq> None)
           (filter (containsInstant (firstOfMonth tz y (m + int i))) assigns)"
  then show "getMonthlyData tz y m assigns ! i
              = Some (min 100 (\<Sum>a\<leftarrow>assigns.
                    if containsInstant (firstOfMonth tz y (m + int i)) a
                    then allocationOrZero a else 0))"
    by (simp add: nth_getMonthlyData localDate_first monthUtilization_sum)
next
  fix u v
  assume "u \<in> set (getMonthlyData tz y m assigns)" and "u = Some v"
  then obtain month where "monthUtilization month assigns = Some v"
    by (auto simp: getMonthlyData_def)
  then show "v \<le> 100" by (rule monthUtilization_le)
next
  fix i :: nat
  assume i: "i < 3"
    and late: "case startDate a of None \<Rightarrow> True | Some s \<Rightarrow> firstOfMonth tz y (m + int i) < s"
  from late have "\<not> containsInstant (firstOfMonth tz y (m + int i)) a"
    by (simp add: containsInstant_def split: option.splits)
  with i show "getMonthlyData tz y m (a # assigns) ! i = getMonthlyData tz y m assigns ! i"
    by (simp add: nth_getMonthlyData localDate_first monthUtilization_later_start)
qed

lemma months_2024:
  "localDate (\<lambda>day. 0) 2024 0 1 = Some 1704067200000"
  "localDate (\<lambda>day. 0) 2024 1 1 = Some 1706745600000"
  "localDate (\<lambda>day. 0) 2024 2 1 = Some 1709251200000"
  "localDate (\<lambda>day. - 60) 2024 0 1 = Some 1704063600000"
  "localDate (\<lambda>day. - 60) 2024 1 1 = Some 1706742000000"
  "localDate (\<lambda>day. - 60) 2024 2 1 = Some 1709247600000"
  "localDate (\<lambda>day. 300) 2024 0 1 = Some 1704085200000"
  "localDate (\<lambda>day. 300) 2024 1 1 = Some 1706763600000"
  "localDate (\<lambda>day. 300) 2024 2 1 = Some 1709269200000"
  by code_simp+

lemma isoDate_values:
  "isoDate 2023 12 1 = Some 1701388800000"
  "isoDate 2024 1 1 = Some 1704067200000"
  "isoDate 2024 3 1 = Some 1709251200000"
  "isoDate 2024 3 31 = Some 1711843200000"
  by code_simp+

text \<open>In a browser whose local time is UTC that instant is the UTC midnight that
  opens the month, the form the assignments' dates have, and an assignment that
  starts on 1 January counts for January, one that ends on 1 March for March.\<close>

lemma getMonthlyData_utc:
  "getMonthlyData (\<lambda>day. 0) 2024 0
     [exampleAssignment\<lparr>allocationPercentage := Some 40,
        startDate := isoDate 2024 1 1, endDate := isoDate 2024 3 31\<rparr>]
     = [Some 40, Some 40, Some 40]
   \<and> getMonthlyData (\<lambda>day. 0) 2024 0
     [exampleAssignment\<lparr>allocationPercentage := Some 40,
        startDate := isoDate 2023 12 1, endDate := isoDate 2024 3 1\<rparr>]
     = [Some 40, Some 40, Some 40]"
  by (simp add: getMonthlyData_def monthUtilization_def months_2024 isoDate_values
      date_le_def date_ge_def js_add_def min100_def)

text \<open>
  C10 at a failing input. The month's instant is a local midnight while the
  assignments' dates are UTC midnights, the defect of the calendar grid. Seen from
  January 2024 at UTC+1, an assignment of 40 that starts on 1 January contains the
  first day of January, yet January shows 0, not min(100, 40). At UTC-5 an
  assignment of 40 that ends on 1 March contains the first day of March, yet March
  shows 0.
\<close>

theorem getMonthlyData_first_day_lost:
  "getMonthlyData (\<lambda>day. - 60) 2024 0
     [exampleAssignment\<lparr>allocationPercentage := Some 40,
        startDate := isoDate 2024 1 1, endDate := isoDate 2024 3 31\<rparr>]
     = [Some 0, Some 40, Some 40]
   \<and> getMonthlyData (\<lambda>day. 300) 2024 0
     [exampleAssignment\<lparr>allocationPercentage := Some 40,
        startDate := isoDate 2023 12 1, endDate := isoDate 2024 3 1\<rparr>]
     = [Some 40, Some 40, Some 0]"
  by (simp add: getMonthlyData_def monthUtilization_def months_2024 isoDate_values
      date_le_def date_ge_def js_add_def min100_def)

section \<open>Suitable engineers\<close>

lemma findSuitableEngineers_candidates:
  "map fst (findSuitableEngineers project engineers assigns now)
     = filter (\<lambda>e. set (case skills e of None \<Rightarrow> [] | Some sk \<Rightarrow> sk)
                    \<inter> set (case requiredSkills project of None \<Rightarrow> [] | Some sk \<Rightarrow> sk) \<noteq> {})
         engineers"
proof -
  have "list_ex (\<lambda>skill. skill \<in> set req) sk = (set sk \<inter> set req \<noteq> {})"
    for sk req :: "string list"
    by (auto simp: list_ex_iff)
  then show ?thesis
    by (simp add: findSuitableEngineers_def Let_def comp_def)
qed

text \<open>
  C9. For a project whose required-skills list is absent or empty,
  \<^verbatim>\<open>findSuitableEngineers\<close> returns the empty candidate list, whatever the engineers
  and their skills: no skill set meets an empty requirement.
\<close>

theorem findSuitableEngineers_no_requirements:
  assumes "requiredSkills project = None \<or> requiredSkills project = Some []"
  shows "findSuitableEngineers project engineers assigns now = []"
proof -
  from assms
  have "(case requiredSkills project of None \<Rightarrow> [] | Some sk \<Rightarrow> sk) = ([] :: string list)"
    by auto
  then have "map fst (findSuitableEngineers project engineers assigns now) = []"
    by (simp add: findSuitableEngineers_candidates)
  then show ?thesis by simp
qed

text \<open>An engineer who knows React is no candidate for a project that requires
  nothing, and is one for a project that requires React.\<close>

theorem findSuitableEngineers_no_requirements_witness:
  "findSuitableEngineers
     \<lparr>project_id = ''p1'', project_name = ''Shop'', status = ''active'', teamSize = 3,
      requiredSkills = Some []\<rparr>
     [\<lparr>user_id = ''e1'', user_name = ''Ann'', skills = Some [''React'', ''Go''],
       seniority = Some ''senior'', maxCapacity = Some 100\<rparr>] [] 1000 = []
   \<and> map fst (findSuitableEngineers
     \<lparr>project_id = ''p2'', project_name = ''Site'', status = ''active'', teamSize = 3,
      requiredSkills = Some [''React'']\<rparr>
     [\<lparr>user_id = ''e1'', user_name = ''Ann'', skills = Some [''React'', ''Go''],
       seniority = Some ''senior'', maxCapacity = Some 100\<rparr>] [] 1000)
     = [\<lparr>user_id = ''e1'', user_name = ''Ann'', skills = Some [''React'', ''Go''],
       seniority = Some ''senior'', maxCapacity = Some 100\<rparr>]"
proof -
  let ?p = "\<lparr>project_id = ''p1'', project_name = ''Shop'', status = ''active'',
             teamSize = 3, requiredSkills = Some []\<rparr>"
  have "requiredSkills ?p = None \<or> requiredSkills ?p = Some []" by simp
  from findSuitableEngineers_no_requirements [OF this]
  show ?thesis by (simp add: findSuitableEngineers_candidates)
qed

section \<open>Skill demand and its ranking\<close>

lemma keys_obj_set:
  "map fst (obj_set obj k v) = (if k \<in> set (map fst obj) then map fst obj else map fst obj @ [k])"
  by (induction obj) (auto simp: rev_image_eqI)

lemma map_of_obj_set: "map_of (obj_set obj k v) = (map_of obj)(k \<mapsto> v)"
  by (induction obj) (auto simp: fun_eq_iff)

lemma numeric_obj_set:
  assumes "numeric obj" "isNumber v"
  shows "numeric (obj_set obj k v)"
  using assms by (induction obj) (auto simp: numeric_def)

lemma numeric_lookup:
  assumes "numeric obj" "map_of obj k = Some v"
  shows "v = JNumber (numberOf v)"
proof -
  from assms(2) have "(k, v) \<in> set obj" by (rule map_of_SomeD)
  with assms(1) have "isNumber v" by (auto simp: numeric_def list_all_iff)
  then show ?thesis by (cases v) (simp_all add: isNumber_def numberOf_def)
qed

lemma countSkill_plain:
  assumes "x \<notin> set inheritedNames" "numeric acc"
  shows "countSkill acc x = obj_set acc x (JNumber (countOf acc x + 1))"
proof -
  from assms(1) have proto: "x \<noteq> ''__proto__''"
    by (auto simp: inheritedNames_def)
  have "orZeroPlusOne (obj_get acc x) = JNumber (countOf acc x + 1)"
  proof (cases "map_of acc x")
    case None
    with assms(1) show ?thesis
      by (simp add: obj_get_def orZeroPlusOne_def countOf_def)
  next
    case (Some v)
    with assms(2) have "v = JNumber (numberOf v)" by (rule numeric_lookup)
    then obtain c where "v = JNumber c" ..
    with Some show ?thesis
      by (simp add: obj_get_def orZeroPlusOne_def countOf_def numberOf_def)
  qed
  with proto show ?thesis by (simp add: countSkill_def obj_assign_def)
qed

lemma set_firstSeen: "set (firstSeen xs) = set xs"
  by (induction xs) auto

lemma distinct_firstSeen: "distinct (firstSeen xs)"
  by (induction xs) (auto simp: set_firstSeen)

lemma foldl_set_add:
  "foldl set_add ks xs = ks @ filter (\<lambda>x. x \<notin> set ks) (firstSeen xs)"
proof (induction xs arbitrary: ks)
  case Nil
  then show ?case by simp
next
  case (Cons x xs)
  show ?case
  proof (cases "x \<in> set ks")
    case True
    have "filter (\<lambda>y. y \<notin> set ks) (filter (\<lambda>y. y \<noteq> x) (firstSeen xs))
            = filter (\<lambda>y. y \<notin> set ks) (firstSeen xs)"
      using True by (auto intro: filter_cong)
    moreover have "set_add ks x = ks" using True by (simp add: set_add_def)
    ultimately show ?thesis using True by (simp add: Cons.IH)
  next
    case False
    have "filter (\<lambda>y. y \<notin> set (ks @ [x])) (firstSeen xs)
            = filter (\<lambda>y. y \<notin> set ks) (filter (\<lambda>y. y \<noteq> x) (firstSeen xs))"
      by (auto intro: filter_cong)
    moreover have "set_add ks x = ks @ [x]" using False by (simp add: set_add_def)
    ultimately show ?thesis using False by (simp add: Cons.IH)
  qed
qed

lemma countSkill_step:
  assumes "x \<notin> set inheritedNames" "numeric acc"
  shows "numeric (countSkill acc x)"
    and "map fst (countSkill acc x) = set_add (map fst acc) x"
    and "countOf (countSkill acc x) s = countOf acc s + (if x = s then 1 else 0)"
proof -
  note eq = countSkill_plain [OF assms]
  show "numeric (countSkill acc x)"
    unfolding eq using assms(2) by (rule numeric_obj_set) (simp add: isNumber_def)
  show "map fst (countSkill acc x) = set_add (map fst acc) x"
    unfolding eq by (simp add: keys_obj_set set_add_def)
  show "countOf (countSkill acc x) s = countOf acc s + (if x = s then 1 else 0)"
    unfolding eq by (simp add: countOf_def map_of_obj_set numberOf_def)
qed

lemma foldl_countSkill_plain:
  assumes "plainLabels xs" "numeric acc"
  shows "numeric (foldl countSkill acc xs)
         \<and> map fst (foldl countSkill acc xs) = foldl set_add (map fst acc) xs
         \<and> countOf (foldl countSkill acc xs) s = countOf acc s + int (count_list xs s)"
  using assms
proof (induction xs arbitrary: acc)
  case Nil
  then show ?case by simp
next
  case (Cons x xs)
  from Cons.prems(1) have x: "x \<notin> set inheritedNames" and rest: "plainLabels xs"
    by (simp_all add: plainLabels_def)
  note step = countSkill_step [OF x Cons.prems(2)]
  from Cons.IH [OF rest step(1)] show ?case
    by (simp add: step(2) step(3))
qed

lemma skillDemand_foldl: "skillDemand ps = foldl countSkill [] (allRequiredSkills ps)"
proof -
  have step: "(case requiredSkills p of None \<Rightarrow> acc | Some sk \<Rightarrow> foldl countSkill acc sk)
                = foldl countSkill acc (skillsOf p)" for acc p
    by (simp add: skillsOf_def split: option.splits)
  have "foldl (\<lambda>acc p. foldl countSkill acc (skillsOf p)) a ps
          = foldl countSkill a (concat (map skillsOf ps))" for a
    by (induction ps arbitrary: a) simp_all
  then show ?thesis
    by (simp add: skillDemand_def step allRequiredSkills_def)
qed

lemma skillDemand_plain:
  assumes "plainLabels (allRequiredSkills ps)"
  shows "numeric (skillDemand ps)"
    and "map fst (skillDemand ps) = firstSeen (allRequiredSkills ps)"
    and "countOf (skillDemand ps) s = occurrences s ps"
proof -
  have empty: "numeric []" by (simp add: numeric_def)
  note all = foldl_countSkill_plain [OF assms empty, of s, folded skillDemand_foldl]
  from all show "numeric (skillDemand ps)" by blast
  from all show "map fst (skillDemand ps) = firstSeen (allRequiredSkills ps)"
    by (simp add: foldl_set_add)
  from all show "countOf (skillDemand ps) s = occurrences s ps"
    by (simp add: occurrences_def countOf_def)
qed

lemma map_of_skillDemand:
  assumes "plainLabels (allRequiredSkills ps)"
  shows "map_of (skillDemand ps) s
     = (if s \<in> set (allRequiredSkills ps) then Some (JNumber (occurrences s ps)) else None)"
proof (cases "s \<in> set (allRequiredSkills ps)")
  case True
  then have "s \<in> set (map fst (skillDemand ps))"
    by (simp add: skillDemand_plain(2) [OF assms] set_firstSeen)
  then obtain v where v: "map_of (skillDemand ps) s = Some v"
    by (metis map_of_eq_None_iff not_None_eq set_map)
  with skillDemand_plain(1) [OF assms] have "v = JNumber (numberOf v)"
    by (rule numeric_lookup)
  moreover from v have "countOf (skillDemand ps) s = numberOf v" by (simp add: countOf_def)
  ultimately have "v = JNumber (occurrences s ps)"
    by (simp add: skillDemand_plain(3) [OF assms])
  with v True show ?thesis by simp
next
  case False
  then have "s \<notin> set (map fst (skillDemand ps))"
    by (simp add: skillDemand_plain(2) [OF assms] set_firstSeen)
  then have "map_of (skillDemand ps) s = None"
    by (simp add: map_of_eq_None_iff)
  with False show ?thesis by simp
qed

lemma snd_skillDemand:
  assumes "plainLabels (allRequiredSkills ps)" "kv \<in> set (skillDemand ps)"
  shows "snd kv = JNumber (occurrences (fst kv) ps)"
proof -
  have d: "distinct (map fst (skillDemand ps))"
    by (simp add: skillDemand_plain(2) [OF assms(1)] distinct_firstSeen)
  from assms(2) have "(fst kv, snd kv) \<in> set (skillDemand ps)" by simp
  then have "map_of (skillDemand ps) (fst kv) = Some (snd kv)"
    by (simp only: map_of_eq_Some_iff [OF d])
  moreover from assms(2) have "fst kv \<in> set (allRequiredSkills ps)"
    using skillDemand_plain(2) [OF assms(1)] set_firstSeen [of "allRequiredSkills ps"]
    by (metis image_eqI set_map)
  ultimately show ?thesis by (simp add: map_of_skillDemand [OF assms(1)])
qed

lemma count_list_distinct:
  assumes "distinct xs"
  shows "count_list xs s = (if s \<in> set xs then 1 else 0)"
  using assms by (induction xs) auto

lemma occurrences_distinct:
  assumes "list_all (\<lambda>p. distinct (skillsOf p)) ps"
  shows "occurrences s ps = projectsRequiring s ps"
  using assms
proof (induction ps)
  case Nil
  then show ?case by (simp add: occurrences_def projectsRequiring_def allRequiredSkills_def)
next
  case (Cons p ps)
  then have d: "distinct (skillsOf p)" and rest: "occurrences s ps = projectsRequiring s ps"
    by simp_all
  have "occurrences s (p # ps) = int (count_list (skillsOf p) s) + occurrences s ps"
    by (simp add: occurrences_def allRequiredSkills_def)
  also have "\<dots> = (if s \<in> set (skillsOf p) then 1 else 0) + projectsRequiring s ps"
    by (simp add: count_list_distinct [OF d] rest)
  also have "\<dots> = projectsRequiring s (p # ps)"
    by (simp add: projectsRequiring_def)
  finally show ?case .
qed

lemma mset_Object_entries: "mset (Object_entries obj) = mset obj"
  by (simp add: Object_entries_def)

lemma filter_Object_entries_other:
  "filter (\<lambda>kv. \<not> isArrayIndex (fst kv)) (Object_entries obj)
     = filter (\<lambda>kv. \<not> isArrayIndex (fst kv)) obj"
proof -
  have "filter (\<lambda>kv. \<not> isArrayIndex (fst kv))
          (sort_key (\<lambda>kv. digitsValue (fst kv)) (filter (\<lambda>kv. isArrayIndex (fst kv)) obj)) = []"
    by (simp add: filter_empty_conv)
  then show ?thesis by (simp add: Object_entries_def)
qed

lemma sortedSkillDemand_plain:
  assumes "plainLabels (allRequiredSkills ps)"
  shows "sortedSkillDemand ps
           = Some (sort_key (\<lambda>kv. - numberOf (snd kv)) (Object_entries (skillDemand ps)))"
proof -
  have "set (Object_entries (skillDemand ps)) = set (skillDemand ps)"
    using mset_Object_entries [of "skillDemand ps"] by (rule mset_eq_setD)
  with skillDemand_plain(1) [OF assms]
  have "list_all (\<lambda>kv. isNumber (snd kv)) (Object_entries (skillDemand ps))"
    by (simp add: numeric_def list_all_iff)
  then show ?thesis by (simp add: sortedSkillDemand_def)
qed

lemma ties_sort_key:
  fixes xs :: "(string \<times> jsval) list"
  shows "filter (\<lambda>kv. numberOf (snd kv) = c) (sort_key (\<lambda>kv. - numberOf (snd kv)) xs)
           = filter (\<lambda>kv. numberOf (snd kv) = c) xs"
proof -
  have "filter (\<lambda>kv. - numberOf (snd kv) = - c) (sort_key (\<lambda>kv. - numberOf (snd kv)) xs)
          = filter (\<lambda>kv. - numberOf (snd kv) = - c) xs"
    by (rule sort_key_stable)
  then show ?thesis by simp
qed

text \<open>
  Where no label names a member of \<^verbatim>\<open>Object.prototype\<close>, \<^verbatim>\<open>skillDemand\<close> holds exactly the
  distinct skills of the projects' lists, in first-seen order, each with the number
  of its occurrences (\<open>map_of_skillDemand\<close>), which is the number of projects
  requiring it when no list repeats a skill (\<open>occurrences_distinct\<close>); and the
  ranking is a rearrangement of these entries, sorted descending by count, in which
  the skills of equal count whose label is not an array index stand in first-seen
  order.
\<close>

lemma skillDemand_ranking_plain:
  assumes "plainLabels (allRequiredSkills ps)"
  shows "\<exists>ranked. sortedSkillDemand ps = Some ranked
           \<and> mset ranked = mset (skillDemand ps)
           \<and> sorted_wrt (\<lambda>a b. numberOf (snd b) \<le> numberOf (snd a)) ranked
           \<and> map fst (filter (\<lambda>kv. numberOf (snd kv) = c \<and> \<not> isArrayIndex (fst kv)) ranked)
               = filter (\<lambda>s. occurrences s ps = c \<and> \<not> isArrayIndex s)
                   (firstSeen (allRequiredSkills ps))"
proof -
  let ?D = "skillDemand ps"
  define ranked where "ranked = sort_key (\<lambda>kv. - numberOf (snd kv)) (Object_entries ?D)"
  have res: "sortedSkillDemand ps = Some ranked"
    by (simp add: sortedSkillDemand_plain [OF assms] ranked_def)
  have perm: "mset ranked = mset ?D"
    by (simp add: ranked_def mset_Object_entries)
  have "sorted (map (\<lambda>kv. - numberOf (snd kv)) ranked)"
    by (simp add: ranked_def)
  then have desc: "sorted_wrt (\<lambda>a b. numberOf (snd b) \<le> numberOf (snd a)) ranked"
    by (simp add: sorted_map)
  have "filter (\<lambda>kv. numberOf (snd kv) = c \<and> \<not> isArrayIndex (fst kv)) ranked
          = filter (\<lambda>kv. \<not> isArrayIndex (fst kv))
              (filter (\<lambda>kv. numberOf (snd kv) = c) ranked)"
    by (simp add: conj_commute)
  also have "\<dots> = filter (\<lambda>kv. numberOf (snd kv) = c)
                      (filter (\<lambda>kv. \<not> isArrayIndex (fst kv)) (Object_entries ?D))"
    by (simp add: ranked_def ties_sort_key conj_commute)
  also have "\<dots> = filter (\<lambda>kv. numberOf (snd kv) = c \<and> \<not> isArrayIndex (fst kv)) ?D"
    by (simp add: filter_Object_entries_other) (simp add: conj_commute)
  also have "\<dots> = filter (\<lambda>kv. occurrences (fst kv) ps = c \<and> \<not> isArrayIndex (fst kv)) ?D"
    by (rule filter_cong) (simp_all add: snd_skillDemand [OF assms] numberOf_def)
  finally have "map fst (filter (\<lambda>kv. numberOf (snd kv) = c \<and> \<not> isArrayIndex (fst kv)) ranked)
                = filter (\<lambda>s. occurrences s ps = c \<and> \<not> isArrayIndex s) (map fst ?D)"
    by (simp add: filter_map comp_def)
  then have ties: "map fst (filter (\<lambda>kv. numberOf (snd kv) = c \<and> \<not> isArrayIndex (fst kv)) ranked)
                = filter (\<lambda>s. occurrences s ps = c \<and> \<not> isArrayIndex s)
                    (firstSeen (allRequiredSkills ps))"
    by (simp only: skillDemand_plain(2) [OF assms])
  from res perm desc ties show ?thesis by blast
qed

text \<open>Three projects, the second without a list: React is required by two, Node.js
  and Go by one each, and the tie keeps Node.js, seen first, ahead of Go.\<close>

lemma skillDemand_ranking_example:
  "topSkills
     [\<lparr>project_id = ''p1'', project_name = ''Shop'', status = ''active'', teamSize = 3,
       requiredSkills = Some [''Node.js'', ''React'']\<rparr>,
      \<lparr>project_id = ''p2'', project_name = ''Blog'', status = ''planning'', teamSize = 1,
       requiredSkills = None\<rparr>,
      \<lparr>project_id = ''p3'', project_name = ''Site'', status = ''active'', teamSize = 2,
       requiredSkills = Some [''Go'', ''React'']\<rparr>]
     = Some [(''React'', JNumber 2), (''Node.js'', JNumber 1), (''Go'', JNumber 1)]"
proof -
  have other: "\<not> isArrayIndex ''Node.js''" "\<not> isArrayIndex ''React''" "\<not> isArrayIndex ''Go''"
    by (simp_all add: isArrayIndex_def isDigit_def)
  show ?thesis
    by (simp add: topSkills_def sortedSkillDemand_def skillDemand_def countSkill_def
        obj_assign_def obj_get_def orZeroPlusOne_def inheritedNames_def
        Object_entries_def other isNumber_def numberOf_def)
qed

text \<open>
  The object shows through in two more ways. Of two skills of equal count, \<^verbatim>\<open>b\<close>
  seen before \<^verbatim>\<open>1\<close>, the ranking puts \<^verbatim>\<open>1\<close> first, because \<^verbatim>\<open>Object.entries\<close> lists
  array-index keys before the others. And a skill named \<^verbatim>\<open>constructor\<close> gets a string
  for a count, while one named \<^verbatim>\<open>__proto__\<close> gets no entry at all.
\<close>

lemma skillDemand_object_keys:
  "topSkills
     [\<lparr>project_id = ''p1'', project_name = ''Shop'', status = ''active'', teamSize = 3,
       requiredSkills = Some [''b'', ''1'']\<rparr>]
     = Some [(''1'', JNumber 1), (''b'', JNumber 1)]
   \<and> firstSeen (allRequiredSkills
     [\<lparr>project_id = ''p1'', project_name = ''Shop'', status = ''active'', teamSize = 3,
       requiredSkills = Some [''b'', ''1'']\<rparr>]) = [''b'', ''1'']
   \<and> skillDemand
     [\<lparr>project_id = ''p1'', project_name = ''Shop'', status = ''active'', teamSize = 3,
       requiredSkills = Some [''constructor'', ''React'', ''__proto__'']\<rparr>]
     = [(''constructor'', JText), (''React'', JNumber 1)]"
proof -
  have idx: "\<not> isArrayIndex ''b''" "isArrayIndex ''1''"
    by (simp_all add: isArrayIndex_def isDigit_def digitsValue_def)
  show ?thesis
    by (simp add: topSkills_def sortedSkillDemand_def skillDemand_def countSkill_def
        obj_assign_def obj_get_def orZeroPlusOne_def inheritedNames_def
        Object_entries_def idx isNumber_def numberOf_def skillsOf_def allRequiredSkills_def)
qed

text \<open>
  C7 at a failing input. A project whose required-skills list names React twice
  (the project form splits its text at commas and keeps repetitions) is one project
  requiring React, but \<^verbatim>\<open>skillDemand\<close> counts each list entry: React gets 2, and the
  chart shows 2 under the label "Projects Requiring Skill".
\<close>

theorem skillDemand_repeated_entry:
  "skillDemand
     [\<lparr>project_id = ''p1'', project_name = ''Shop'', status = ''active'', teamSize = 3,
       requiredSkills = Some [''React'', ''React'']\<rparr>] = [(''React'', JNumber 2)]
   \<and> topSkills
     [\<lparr>project_id = ''p1'', project_name = ''Shop'', status = ''active'', teamSize = 3,
       requiredSkills = Some [''React'', ''React'']\<rparr>] = Some [(''React'', JNumber 2)]
   \<and> projectsRequiring ''React''
     [\<lparr>project_id = ''p1'', project_name = ''Shop'', status = ''active'', teamSize = 3,
       requiredSkills = Some [''React'', ''React'']\<rparr>] = 1"
proof -
  have idx: "\<not> isArrayIndex ''React''"
    by (simp add: isArrayIndex_def isDigit_def)
  show ?thesis
    by (simp add: topSkills_def sortedSkillDemand_def skillDemand_def countSkill_def
        obj_assign_def obj_get_def orZeroPlusOne_def inheritedNames_def
        Object_entries_def idx isNumber_def numberOf_def projectsRequiring_def skillsOf_def)
qed

end
